theory Spec2Isabelle
  imports Main "HOL-Library.Word"
begin

unbundle bit_operations_syntax

section \<open>Bus registry (stm32h7\_spi.c, lines 14-83)\<close>

text \<open>
  \<^verbatim>\<open>#define MAX_FIFO 8\<close>: the limit on bytes written to the transmit FIFO ahead of
  the bytes read back.
\<close>

definition MAX_FIFO :: nat where
  "MAX_FIFO = 8"

text \<open>
  \<^verbatim>\<open>SPI_TypeDef *spi\<close> points at the register block of one peripheral instance; the
  model names the instance. \<^verbatim>\<open>GPIO(PORT, NUM)\<close> and \<^verbatim>\<open>GPIO_FUNCTION(fn)\<close> are macros
  of a header that is not part of the unit; they are kept symbolic, as constructors
  applied to the arguments the table gives them.
\<close>

datatype SPI_TypeDef = SPI1 | SPI2 | SPI3 | SPI4 | SPI5 | SPI6

datatype gpio = GPIO char nat

datatype gpio_function = GPIO_FUNCTION nat

text \<open>
  \<^verbatim>\<open>struct spi_info { SPI_TypeDef *spi; uint8_t miso_pin, mosi_pin, sck_pin, function; }\<close>.
  The field \<^verbatim>\<open>function\<close> is called \<open>func\<close> here, the source's name being a keyword.
\<close>

record spi_info =
  spi :: SPI_TypeDef
  miso_pin :: gpio
  mosi_pin :: gpio
  sck_pin :: gpio
  func :: gpio_function

text \<open>
  The preprocessor symbols that decide which declarations and which table rows are
  compiled: \<^verbatim>\<open>CONFIG_MACH_STM32F1\<close> and whether \<^verbatim>\<open>SPI3\<close>, \<^verbatim>\<open>SPI4\<close>, \<^verbatim>\<open>GPIOI\<close>,
  \<^verbatim>\<open>SPI5\<close>, \<^verbatim>\<open>SPI6\<close> are defined.
\<close>

record build =
  CONFIG_MACH_STM32F1 :: bool
  def_SPI3 :: bool
  def_SPI4 :: bool
  def_GPIOI :: bool
  def_SPI5 :: bool
  def_SPI6 :: bool

text \<open>
  The declarations of lines 21-59, in source order. The value of every
  \<^verbatim>\<open>DECL_ENUMERATION\<close> is \<^verbatim>\<open>__COUNTER__\<close>, which the preprocessor replaces by 0, 1, 2, ...
  at its successive expansions; \<open>enumeration_values\<close> does that numbering. These are
  taken to be the first expansions of \<^verbatim>\<open>__COUNTER__\<close> in the unit, as the use of the
  value as an index of the table requires.
\<close>

datatype decl = DECL_ENUMERATION string string | DECL_CONSTANT_STR string string

definition ifdef :: "bool \<Rightarrow> 'a list \<Rightarrow> 'a list" where
  "ifdef c xs = (if c then xs else [])"

definition declarations :: "build \<Rightarrow> decl list" where
  "declarations b =
     [DECL_ENUMERATION ''spi_bus'' ''spi2'',
      DECL_CONSTANT_STR ''BUS_PINS_spi2'' ''PB14,PB15,PB13'',
      DECL_ENUMERATION ''spi_bus'' ''spi1'',
      DECL_CONSTANT_STR ''BUS_PINS_spi1'' ''PA6,PA7,PA5'',
      DECL_ENUMERATION ''spi_bus'' ''spi1a'',
      DECL_CONSTANT_STR ''BUS_PINS_spi1a'' ''PB4,PB5,PB3'']
     @ ifdef (\<not> CONFIG_MACH_STM32F1 b)
         [DECL_ENUMERATION ''spi_bus'' ''spi2a'',
          DECL_CONSTANT_STR ''BUS_PINS_spi2a'' ''PC2,PC3,PB10'']
     @ ifdef (def_SPI3 b)
         [DECL_ENUMERATION ''spi_bus'' ''spi3a'',
          DECL_CONSTANT_STR ''BUS_PINS_spi3a'' ''PC11,PC12,PC10'']
     @ ifdef (def_SPI4 b)
         [DECL_ENUMERATION ''spi_bus'' ''spi4'',
          DECL_CONSTANT_STR ''BUS_PINS_spi4'' ''PE13,PE14,PE12'']
     @ ifdef (def_GPIOI b)
         [DECL_ENUMERATION ''spi_bus'' ''spi2b'',
          DECL_CONSTANT_STR ''BUS_PINS_spi2b'' ''PI2,PI3,PI1'']
     @ ifdef (def_SPI5 b)
         [DECL_ENUMERATION ''spi_bus'' ''spi5'',
          DECL_CONSTANT_STR ''BUS_PINS_spi5'' ''PF8,PF9,PF7'',
          DECL_ENUMERATION ''spi_bus'' ''spi5a'',
          DECL_CONSTANT_STR ''BUS_PINS_spi5a'' ''PH7,PF11,PH6'']
     @ ifdef (def_SPI6 b)
         [DECL_ENUMERATION ''spi_bus'' ''spi6'',
          DECL_CONSTANT_STR ''BUS_PINS_spi6'' ''PG12,PG14,PG13'']"

fun enumeration_values :: "nat \<Rightarrow> decl list \<Rightarrow> (string \<times> nat) list" where
  "enumeration_values c [] = []"
| "enumeration_values c (DECL_ENUMERATION e name # ds) =
     (name, c) # enumeration_values (Suc c) ds"
| "enumeration_values c (DECL_CONSTANT_STR k v # ds) = enumeration_values c ds"

fun constant_strs :: "decl list \<Rightarrow> (string \<times> string) list" where
  "constant_strs [] = []"
| "constant_strs (DECL_CONSTANT_STR k v # ds) = (k, v) # constant_strs ds"
| "constant_strs (DECL_ENUMERATION e name # ds) = constant_strs ds"

text \<open>The registered bus names with their values, and the advertised string constants.\<close>

definition spi_bus_enumeration :: "build \<Rightarrow> (string \<times> nat) list" where
  "spi_bus_enumeration b = enumeration_values 0 (declarations b)"

definition constant_str :: "build \<Rightarrow> string \<Rightarrow> string option" where
  "constant_str b k = map_of (constant_strs (declarations b)) k"

text \<open>
  \<^verbatim>\<open>static const struct spi_info spi_bus[]\<close>, lines 62-83. Each initialiser gives the
  fields in the order of the struct: spi, miso\_pin, mosi\_pin, sck\_pin, function. The
  row of port I (line 75) stands outside every \<^verbatim>\<open>#if\<close>.
\<close>

definition row :: "SPI_TypeDef \<Rightarrow> gpio \<Rightarrow> gpio \<Rightarrow> gpio \<Rightarrow> gpio_function \<Rightarrow> spi_info" where
  "row s a b c f = \<lparr>spi = s, miso_pin = a, mosi_pin = b, sck_pin = c, func = f\<rparr>"

definition spi_bus :: "build \<Rightarrow> spi_info list" where
  "spi_bus b =
     [row SPI2 (GPIO CHR ''B'' 14) (GPIO CHR ''B'' 15) (GPIO CHR ''B'' 13) (GPIO_FUNCTION 5),
      row SPI1 (GPIO CHR ''A'' 6) (GPIO CHR ''A'' 7) (GPIO CHR ''A'' 5) (GPIO_FUNCTION 5),
      row SPI1 (GPIO CHR ''B'' 4) (GPIO CHR ''B'' 5) (GPIO CHR ''B'' 3) (GPIO_FUNCTION 5)]
     @ ifdef (\<not> CONFIG_MACH_STM32F1 b)
         [row SPI2 (GPIO CHR ''C'' 2) (GPIO CHR ''C'' 3) (GPIO CHR ''B'' 10) (GPIO_FUNCTION 5)]
     @ ifdef (def_SPI3 b)
         [row SPI3 (GPIO CHR ''C'' 11) (GPIO CHR ''C'' 12) (GPIO CHR ''C'' 10) (GPIO_FUNCTION 6)]
     @ ifdef (def_SPI4 b)
         [row SPI4 (GPIO CHR ''E'' 13) (GPIO CHR ''E'' 14) (GPIO CHR ''E'' 12) (GPIO_FUNCTION 5)]
     @ [row SPI2 (GPIO CHR ''I'' 2) (GPIO CHR ''I'' 3) (GPIO CHR ''I'' 1) (GPIO_FUNCTION 5)]
     @ ifdef (def_SPI5 b)
         [row SPI5 (GPIO CHR ''F'' 8) (GPIO CHR ''F'' 9) (GPIO CHR ''F'' 7) (GPIO_FUNCTION 5),
          row SPI5 (GPIO CHR ''H'' 7) (GPIO CHR ''F'' 11) (GPIO CHR ''H'' 6) (GPIO_FUNCTION 5)]
     @ ifdef (def_SPI6 b)
         [row SPI6 (GPIO CHR ''G'' 12) (GPIO CHR ''G'' 14) (GPIO CHR ''G'' 13) (GPIO_FUNCTION 5)]"

section \<open>Configuration resolver: spi\_setup (lines 85-107)\<close>

text \<open>
  \<^verbatim>\<open>struct spi_config\<close> is declared in a header that is not part of the unit; the
  compound literal of line 106 gives its fields \<^verbatim>\<open>spi\<close>, \<^verbatim>\<open>div\<close> and \<^verbatim>\<open>mode\<close>. The
  divisor is at most 7 and the mode is a \<^verbatim>\<open>uint8_t\<close>, so both are kept at the width
  the function computes them in.
\<close>

record spi_config =
  config_spi :: SPI_TypeDef
  config_div :: "32 word"
  config_mode :: "8 word"

text \<open>
  The registers of one peripheral that the unit writes, and the accesses to the
  hardware in program order: the clock and pin operations, the stores to the registers
  and the readings of the timer (with the value read).
\<close>

datatype spi_reg = CFG1 | CFG2 | CR1 | CR2 | IFCR

datatype hw_op =
    EnablePclock SPI_TypeDef
  | GpioPeripheral gpio gpio_function bool
  | RegWrite SPI_TypeDef spi_reg "32 word"
  | TimerRead "32 word"

record mcu =
  pclock_enabled :: "SPI_TypeDef set"
  pclock_frequency :: "SPI_TypeDef \<Rightarrow> 32 word"
  regs :: "SPI_TypeDef \<Rightarrow> spi_reg \<Rightarrow> 32 word"
  timer_reads :: nat
  oplog :: "hw_op list"

text \<open>
  Modelled from the spec: \<^verbatim>\<open>shutdown\<close> is a macro of a header that is not part of the
  unit. The spec gives it as the fatal-abort capability \<open>abort(message)\<close>, which halts
  the firmware with the diagnostic and never returns.
\<close>

datatype fatal = Shutdown string

text \<open>
  Modelled from the spec: the clock-domain capability (\<^verbatim>\<open>is_enabled_pclock\<close>,
  \<^verbatim>\<open>enable_pclock\<close>, \<^verbatim>\<open>get_pclock_frequency\<close>) and the pin-routing capability
  (\<^verbatim>\<open>gpio_peripheral\<close>) are defined outside the unit. The spec gives them as
  \<open>is_active(peripheral) -> bool\<close>, \<open>activate(peripheral)\<close>,
  \<open>clock_frequency(peripheral) -> u32\<close> and \<open>configure_pin(pin, function, pull_up)\<close>,
  with one activation bit per peripheral instance that \<open>activate\<close> sets.
\<close>

definition is_enabled_pclock :: "SPI_TypeDef \<Rightarrow> mcu \<Rightarrow> bool" where
  "is_enabled_pclock p st = (p \<in> pclock_enabled st)"

definition enable_pclock :: "SPI_TypeDef \<Rightarrow> mcu \<Rightarrow> mcu" where
  "enable_pclock p st =
     st\<lparr>pclock_enabled := insert p (pclock_enabled st), oplog := oplog st @ [EnablePclock p]\<rparr>"

definition gpio_peripheral :: "gpio \<Rightarrow> gpio_function \<Rightarrow> bool \<Rightarrow> mcu \<Rightarrow> mcu" where
  "gpio_peripheral pin f pull_up st = st\<lparr>oplog := oplog st @ [GpioPeripheral pin f pull_up]\<rparr>"

definition get_pclock_frequency :: "SPI_TypeDef \<Rightarrow> mcu \<Rightarrow> 32 word" where
  "get_pclock_frequency p st = pclock_frequency st p"

text \<open>
  The loop of lines 102-104:
  \<^verbatim>\<open>while ((pclk >> (div + 1)) > rate && div < 7) div++;\<close> on \<^verbatim>\<open>uint32_t\<close>.
\<close>

function div_loop :: "32 word \<Rightarrow> 32 word \<Rightarrow> 32 word \<Rightarrow> 32 word" where
  "div_loop pclk rate d =
     (if drop_bit (unat (d + 1)) pclk > rate \<and> d < 7 then div_loop pclk rate (d + 1) else d)"
  by pat_completeness auto
termination
proof (relation "measure (\<lambda>(pclk, rate, d). 7 - unat d)")
  show "wf (measure (\<lambda>(pclk, rate, d). 7 - unat d))"
    by simp
next
  fix pclk rate d :: "32 word"
  assume "rate < drop_bit (unat (d + 1)) pclk \<and> d < 7"
  then have "unat d < 7"
    by (simp add: word_less_nat_alt)
  moreover from this have "unat (d + 1) = unat d + 1"
    by (simp add: unat_word_ariths)
  ultimately show "((pclk, rate, d + 1), (pclk, rate, d)) \<in> measure (\<lambda>(pclk, rate, d). 7 - unat d)"
    by simp
qed

declare div_loop.simps [simp del]

text \<open>
  \<^verbatim>\<open>spi_setup(uint32_t bus, uint8_t mode, uint32_t rate)\<close>. Where the function shuts
  down, the result is the diagnostic, together with the state of the hardware at that
  point; otherwise it is the configuration returned and the state at the return.
\<close>

definition spi_setup ::
  "build \<Rightarrow> 32 word \<Rightarrow> 8 word \<Rightarrow> 32 word \<Rightarrow> mcu \<Rightarrow> (fatal + spi_config) \<times> mcu" where
  "spi_setup b bus mode rate st =
     (if unat bus \<ge> length (spi_bus b) then (Inl (Shutdown ''Invalid spi bus''), st)
      else
        let info = spi_bus b ! unat bus;
            p = spi info;
            st1 = (if \<not> is_enabled_pclock p st
                   then gpio_peripheral (sck_pin info) (func info) False
                          (gpio_peripheral (mosi_pin info) (func info) False
                            (gpio_peripheral (miso_pin info) (func info) True
                              (enable_pclock p st)))
                   else st);
            pclk = get_pclock_frequency p st1;
            d = div_loop pclk rate 0
        in (Inr \<lparr>config_spi = p, config_div = d, config_mode = mode\<rparr>, st1))"

section \<open>Register layout\<close>

text \<open>
  The bit positions and masks that the unit takes from the device header, which is not
  part of it. The functions below take them as a parameter; \<open>stm32h7xx\<close> is the layout
  of the STM32H7 reference manual, used where a concrete layout is needed.
\<close>

record spi_defs =
  SPI_CFG1_MBR_Pos :: nat
  SPI_CFG1_DSIZE_Pos :: nat
  SPI_CFG2_CPHA_Pos :: nat
  SPI_CFG2_CPOL_Msk :: "32 word"
  SPI_CFG2_MASTER :: "32 word"
  SPI_CFG2_SSM :: "32 word"
  SPI_CFG2_AFCNTR :: "32 word"
  SPI_CFG2_SSOE :: "32 word"
  SPI_CR2_TSIZE_Pos :: nat
  SPI_CR1_SSI :: "32 word"
  SPI_CR1_SPE :: "32 word"
  SPI_CR1_CSTART :: "32 word"
  SPI_SR_TXP :: "32 word"
  SPI_SR_RXP :: "32 word"
  SPI_SR_EOT :: "32 word"

definition stm32h7xx :: spi_defs where
  "stm32h7xx = \<lparr>
     SPI_CFG1_MBR_Pos = 28, SPI_CFG1_DSIZE_Pos = 0,
     SPI_CFG2_CPHA_Pos = 24, SPI_CFG2_CPOL_Msk = 0x02000000,
     SPI_CFG2_MASTER = 0x00400000, SPI_CFG2_SSM = 0x04000000,
     SPI_CFG2_AFCNTR = 0x80000000, SPI_CFG2_SSOE = 0x20000000,
     SPI_CR2_TSIZE_Pos = 0,
     SPI_CR1_SSI = 0x1000, SPI_CR1_SPE = 0x1, SPI_CR1_CSTART = 0x200,
     SPI_SR_TXP = 0x2, SPI_SR_RXP = 0x1, SPI_SR_EOT = 0x8\<rparr>"

section \<open>Mode programmer: spi\_prepare (lines 109-127)\<close>

text \<open>
  Modelled from the spec: the timer capability (\<^verbatim>\<open>timer_read_time\<close>,
  \<^verbatim>\<open>timer_from_us\<close>, \<^verbatim>\<open>timer_is_before\<close>) is defined outside the unit. The spec gives
  it as \<open>now() -> Ticks\<close>, \<open>microseconds_to_ticks(us) -> Ticks\<close> and
  \<open>is_before(a, b) -> bool\<close>. \<open>timer_ticks T n\<close> is the value that the n-th reading of
  the timer returns; the state counts the readings made, and every reading is entered
  in the log of accesses at the point of the program where it is made.
\<close>

record timer =
  timer_ticks :: "nat \<Rightarrow> 32 word"
  timer_from_us :: "32 word \<Rightarrow> 32 word"
  timer_is_before :: "32 word \<Rightarrow> 32 word \<Rightarrow> bool"

definition timer_read_time :: "timer \<Rightarrow> mcu \<Rightarrow> 32 word \<times> mcu" where
  "timer_read_time T st =
     (timer_ticks T (timer_reads st),
      st\<lparr>timer_reads := Suc (timer_reads st),
         oplog := oplog st @ [TimerRead (timer_ticks T (timer_reads st))]\<rparr>)"

text \<open>
  A store to a register of the peripheral: the register holds the value, and the store
  is visible in program order.
\<close>

definition reg_write :: "SPI_TypeDef \<Rightarrow> spi_reg \<Rightarrow> 32 word \<Rightarrow> mcu \<Rightarrow> mcu" where
  "reg_write p r v st =
     st\<lparr>regs := (regs st)(p := (regs st p)(r := v)), oplog := oplog st @ [RegWrite p r v]\<rparr>"

text \<open>
  Lines 119-120: \<^verbatim>\<open>(mode << SPI_CFG2_CPHA_Pos) | SPI_CFG2_MASTER | SPI_CFG2_SSM |
  SPI_CFG2_AFCNTR | SPI_CFG2_SSOE\<close>, with \<^verbatim>\<open>uint32_t mode = config.mode\<close>.
\<close>

definition cfg2_value :: "spi_defs \<Rightarrow> spi_config \<Rightarrow> 32 word" where
  "cfg2_value D config =
     push_bit (SPI_CFG2_CPHA_Pos D) (ucast (config_mode config) :: 32 word)
       OR SPI_CFG2_MASTER D OR SPI_CFG2_SSM D OR SPI_CFG2_AFCNTR D OR SPI_CFG2_SSOE D"

text \<open>
  Lines 125-126: \<^verbatim>\<open>while (timer_is_before(timer_read_time(), end)) ;\<close>. The loop
  has no bound of its own: where the timer never reaches \<open>end\<close> it does not return,
  which is the value \<open>None\<close>.
\<close>

partial_function (option) settle_wait :: "timer \<Rightarrow> 32 word \<Rightarrow> mcu \<Rightarrow> mcu option" where
  "settle_wait T end_time st =
     (if timer_is_before T (fst (timer_read_time T st)) end_time
      then settle_wait T end_time (snd (timer_read_time T st))
      else Some (snd (timer_read_time T st)))"

definition spi_prepare :: "spi_defs \<Rightarrow> timer \<Rightarrow> spi_config \<Rightarrow> mcu \<Rightarrow> mcu option" where
  "spi_prepare D T config st =
     (let d = config_div config;
          p = config_spi config;
          st1 = reg_write p CFG1
                  (push_bit (SPI_CFG1_MBR_Pos D) d OR push_bit (SPI_CFG1_DSIZE_Pos D) 7) st;
          cfg2 = cfg2_value D config;
          diff = regs st1 p CFG2 XOR cfg2;
          st2 = reg_write p CFG2 cfg2 st1;
          end_time = fst (timer_read_time T st2) + timer_from_us T 1;
          st3 = snd (timer_read_time T st2)
      in if diff AND SPI_CFG2_CPOL_Msk D \<noteq> 0 then settle_wait T end_time st3 else Some st3)"

section \<open>Transfer engine: spi\_transfer (lines 129-159)\<close>

text \<open>
  The peripheral as the processor sees it during a transfer: what a read of the status
  register and of the receive data register return, and how the peripheral's state
  moves at each access. \<open>'p\<close> is the state of the peripheral; nothing is assumed of it.
\<close>

record 'p spi_device =
  dev_read_SR :: "'p \<Rightarrow> 32 word \<times> 'p"
  dev_write_TXDR :: "8 word \<Rightarrow> 'p \<Rightarrow> 'p"
  dev_read_RXDR :: "'p \<Rightarrow> 8 word \<times> 'p"
  dev_write_reg :: "spi_reg \<Rightarrow> 32 word \<Rightarrow> 'p \<Rightarrow> 'p"

text \<open>
  The variables of the polling loop. \<open>data\<close> and \<open>wptr\<close> are the offsets of the two
  pointers from the address the caller passes (the receive cursor and the send cursor);
  \<open>buf\<close> is the caller's memory, addressed by the same offsets.
\<close>

record 'p xfer =
  data :: nat
  wptr :: nat
  buf :: "nat \<Rightarrow> 8 word"
  periph :: 'p

text \<open>One pass through the body of the loop of lines 141-151.\<close>

definition xfer_step :: "spi_defs \<Rightarrow> 'p spi_device \<Rightarrow> 8 word \<Rightarrow> 8 word \<Rightarrow> 'p xfer \<Rightarrow> 'p xfer" where
  "xfer_step D P receive_data len s =
     (let sr = fst (dev_read_SR P (periph s)) AND (SPI_SR_TXP D OR SPI_SR_RXP D);
          s1 = s\<lparr>periph := snd (dev_read_SR P (periph s))\<rparr>;
          s2 = (if sr = SPI_SR_TXP D \<and> wptr s1 < unat len \<and> wptr s1 < data s1 + MAX_FIFO
                then s1\<lparr>periph := dev_write_TXDR P (buf s1 (wptr s1)) (periph s1),
                        wptr := wptr s1 + 1\<rparr>
                else s1)
      in if sr AND SPI_SR_RXP D = 0 then s2
         else
           let rdata = fst (dev_read_RXDR P (periph s2));
               s3 = s2\<lparr>periph := snd (dev_read_RXDR P (periph s2))\<rparr>;
               s4 = (if receive_data \<noteq> 0 then s3\<lparr>buf := (buf s3)(data s3 := rdata)\<rparr> else s3)
           in s4\<lparr>data := data s4 + 1\<rparr>)"

text \<open>
  \<^verbatim>\<open>while (data < end)\<close>, with \<^verbatim>\<open>end = data + len\<close>. A peripheral that never reports a
  received byte keeps the loop polling for ever: the value \<open>None\<close>.
\<close>

partial_function (option) xfer_loop ::
  "spi_defs \<Rightarrow> 'p spi_device \<Rightarrow> 8 word \<Rightarrow> 8 word \<Rightarrow> 'p xfer \<Rightarrow> 'p xfer option" where
  "xfer_loop D dev receive_data len s =
     (if data s < unat len
      then xfer_loop D dev receive_data len (xfer_step D dev receive_data len s)
      else Some s)"

text \<open>
  The variables of the loop after \<open>n\<close> passes through its body (or at its exit, where it
  ends earlier): the state in which polling iteration \<open>n\<close> starts.
\<close>

fun xfer_iter ::
  "spi_defs \<Rightarrow> 'p spi_device \<Rightarrow> 8 word \<Rightarrow> 8 word \<Rightarrow> nat \<Rightarrow> 'p xfer \<Rightarrow> 'p xfer" where
  "xfer_iter D P receive_data len 0 s = s"
| "xfer_iter D P receive_data len (Suc n) s =
     (let s' = xfer_iter D P receive_data len n s
      in if data s' < unat len then xfer_step D P receive_data len s' else s')"

text \<open>Lines 153-154: \<^verbatim>\<open>while ((spi->SR & SPI_SR_EOT) == 0) ;\<close>.\<close>

partial_function (option) eot_wait :: "spi_defs \<Rightarrow> 'p spi_device \<Rightarrow> 'p \<Rightarrow> 'p option" where
  "eot_wait D dev p =
     (if fst (dev_read_SR dev p) AND SPI_SR_EOT D = 0
      then eot_wait D dev (snd (dev_read_SR dev p))
      else Some (snd (dev_read_SR dev p)))"

text \<open>The state in which the loop starts, after the three stores of lines 136-139.\<close>

definition xfer_start :: "spi_defs \<Rightarrow> 'p spi_device \<Rightarrow> 8 word \<Rightarrow> (nat \<Rightarrow> 8 word) \<Rightarrow> 'p \<Rightarrow> 'p xfer" where
  "xfer_start D P len mem p =
     \<lparr>data = 0, wptr = 0, buf = mem,
      periph = dev_write_reg P CR1 (SPI_CR1_SSI D OR SPI_CR1_CSTART D OR SPI_CR1_SPE D)
                 (dev_write_reg P CR1 (SPI_CR1_SSI D OR SPI_CR1_SPE D)
                   (dev_write_reg P CR2 (push_bit (SPI_CR2_TSIZE_Pos D) (ucast len)) p))\<rparr>"

text \<open>
  \<^verbatim>\<open>spi_transfer(config, receive_data, len, data)\<close>. \<open>hw\<close> gives the peripheral behind
  each instance; the result is the caller's memory and the peripheral's state at the
  return, or \<open>None\<close> where one of the two loops never ends.
\<close>

definition spi_transfer ::
  "spi_defs \<Rightarrow> (SPI_TypeDef \<Rightarrow> 'p spi_device) \<Rightarrow> spi_config \<Rightarrow> 8 word \<Rightarrow> 8 word \<Rightarrow>
     (nat \<Rightarrow> 8 word) \<Rightarrow> 'p \<Rightarrow> ((nat \<Rightarrow> 8 word) \<times> 'p) option" where
  "spi_transfer D hw config receive_data len mem p =
     (let P = hw (config_spi config)
      in case xfer_loop D P receive_data len (xfer_start D P len mem p) of
           None \<Rightarrow> None
         | Some s \<Rightarrow>
             (case eot_wait D P (periph s) of
                None \<Rightarrow> None
              | Some p' \<Rightarrow>
                  Some (buf s, dev_write_reg P CR1 (SPI_CR1_SSI D)
                                 (dev_write_reg P IFCR 0xFFFFFFFF p'))))"

section \<open>Peripherals and inputs used in the examples\<close>

text \<open>
  A peripheral that follows a script: \<open>sr n\<close> is what the n-th read of the status
  register returns and \<open>rx k\<close> what the k-th read of the receive data register
  returns, whatever is written to it. It records the bytes written to the transmit
  data register.
\<close>

record script =
  polls :: nat
  taken :: nat
  sent :: "8 word list"

definition scripted_device :: "(nat \<Rightarrow> 32 word) \<Rightarrow> (nat \<Rightarrow> 8 word) \<Rightarrow> script spi_device" where
  "scripted_device sr rx =
     \<lparr>dev_read_SR = (\<lambda>q. (sr (polls q), q\<lparr>polls := Suc (polls q)\<rparr>)),
      dev_write_TXDR = (\<lambda>b q. q\<lparr>sent := sent q @ [b]\<rparr>),
      dev_read_RXDR = (\<lambda>q. (rx (taken q), q\<lparr>taken := Suc (taken q)\<rparr>)),
      dev_write_reg = (\<lambda>r v q. q)\<rparr>"

definition script_start :: script where
  "script_start = \<lparr>polls = 0, taken = 0, sent = []\<rparr>"




text \<open>A build with every optional peripheral, and one without port I.\<close>

definition full_build :: build where
  "full_build = \<lparr>CONFIG_MACH_STM32F1 = False, def_SPI3 = True, def_SPI4 = True,
     def_GPIOI = True, def_SPI5 = True, def_SPI6 = True\<rparr>"

definition build_without_GPIOI :: build where
  "build_without_GPIOI = full_build\<lparr>def_GPIOI := False\<rparr>"

text \<open>The hardware after reset: no peripheral clock enabled, a 100 MHz peripheral clock.\<close>

definition reset_mcu :: mcu where
  "reset_mcu = \<lparr>pclock_enabled = {}, pclock_frequency = (\<lambda>p. 100000000),
     regs = (\<lambda>p r. 0), timer_reads = 0, oplog = []\<rparr>"

text \<open>A timer that advances by one tick at every reading, with 4 ticks per microsecond.\<close>

definition counting_timer :: timer where
  "counting_timer = \<lparr>timer_ticks = (\<lambda>n. of_nat n), timer_from_us = (\<lambda>us. 4 * us),
     timer_is_before = (\<lambda>a b. sint (a - b) < 0)\<rparr>"

text \<open>
  A buffer holding 0x11, 0x22, 0x33, ... and a configuration of the second SPI
  peripheral.
\<close>

definition example_mem :: "nat \<Rightarrow> 8 word" where
  "example_mem i = of_nat (17 * (i + 1))"

definition example_config :: spi_config where
  "example_config = \<lparr>config_spi = SPI2, config_div = 6, config_mode = 0\<rparr>"

text \<open>The same with mode 2 (clock polarity 1, clock phase 0).\<close>

definition cpol_config :: spi_config where
  "cpol_config = \<lparr>config_spi = SPI2, config_div = 6, config_mode = 2\<rparr>"

text \<open>Configurations whose mode is outside 0..3.\<close>

definition mode4_config :: spi_config where
  "mode4_config = \<lparr>config_spi = SPI2, config_div = 6, config_mode = 4\<rparr>"

definition mode8_config :: spi_config where
  "mode8_config = \<lparr>config_spi = SPI2, config_div = 6, config_mode = 8\<rparr>"

text \<open>
  Scripts of status readings, in the layout of \<open>stm32h7xx\<close> (receive-available is bit
  0, transmit-free bit 1, end-of-transfer bit 3): a peripheral that reports a free
  transmit slot and, at every second reading, a received byte; one that reports a
  received byte at every reading and never a free slot; one that reports both flags at
  every reading; one that reports a free slot and never a received byte.
\<close>

definition alternating_device :: "script spi_device" where
  "alternating_device = scripted_device (\<lambda>n. if even n then 0xA else 0xB) (\<lambda>k. 0xF0 + of_nat k)"

definition rx_only_device :: "script spi_device" where
  "rx_only_device = scripted_device (\<lambda>n. 0x1) (\<lambda>k. 0)"

definition both_flags_device :: "script spi_device" where
  "both_flags_device = scripted_device (\<lambda>n. 0x3) (\<lambda>k. 0)"

definition tx_only_device :: "script spi_device" where
  "tx_only_device = scripted_device (\<lambda>n. 0x2) (\<lambda>k. 0)"



section \<open>The properties, in the words of the specification\<close>

text \<open>
  \<open>d\<close> is the smallest integer of [0,7] with \<open>pclk >> (d+1) <= rate\<close>, or 7 where no
  integer of [0,7] satisfies the inequality.
\<close>

definition smallest_divisor :: "32 word \<Rightarrow> 32 word \<Rightarrow> nat \<Rightarrow> bool" where
  "smallest_divisor pclk rate d \<longleftrightarrow>
     d \<le> 7 \<and>
     ((\<exists>k\<le>7. drop_bit (k + 1) pclk \<le> rate) \<longrightarrow>
        drop_bit (d + 1) pclk \<le> rate \<and> (\<forall>k<d. \<not> drop_bit (k + 1) pclk \<le> rate)) \<and>
     ((\<forall>k\<le>7. \<not> drop_bit (k + 1) pclk \<le> rate) \<longrightarrow> d = 7)"

text \<open>
  The status reading of the polling iteration that starts in state \<open>s\<close> shows the
  transmit-slot-free flag, and the receive-byte-available flag.
\<close>

definition tx_free :: "spi_defs \<Rightarrow> 'p spi_device \<Rightarrow> 'p xfer \<Rightarrow> bool" where
  "tx_free D P s \<longleftrightarrow> fst (dev_read_SR P (periph s)) AND SPI_SR_TXP D = SPI_SR_TXP D"

definition rx_available :: "spi_defs \<Rightarrow> 'p spi_device \<Rightarrow> 'p xfer \<Rightarrow> bool" where
  "rx_available D P s \<longleftrightarrow> fst (dev_read_SR P (periph s)) AND SPI_SR_RXP D \<noteq> 0"


text \<open>
  The clock-polarity bit of the value that \<open>spi_prepare\<close> computes differs from the
  one the mode/control register holds at the call.
\<close>

definition polarity_differs :: "spi_defs \<Rightarrow> spi_config \<Rightarrow> mcu \<Rightarrow> bool" where
  "polarity_differs D config st \<longleftrightarrow>
     regs st (config_spi config) CFG2 AND SPI_CFG2_CPOL_Msk D
       \<noteq> cfg2_value D config AND SPI_CFG2_CPOL_Msk D"

text \<open>
  The deadline of the settle delay: the first reading of the timer that is made from
  state \<open>st\<close>, plus one microsecond.
\<close>

definition settle_deadline :: "timer \<Rightarrow> mcu \<Rightarrow> 32 word" where
  "settle_deadline T st = timer_ticks T (timer_reads st) + timer_from_us T 1"

text \<open>
  No settle delay between \<open>st\<close> and \<open>st'\<close>: the timer is read once (for the deadline)
  and not polled. One settle delay: after that reading the timer is polled \<open>n + 1\<close>
  times, the last poll being the first reading that is not before the deadline.
\<close>

text \<open>
  The readings of the timer from the \<open>a\<close>-th up to, and without, the \<open>b\<close>-th, as they
  appear in the log; the state after \<open>k\<close> more readings of the timer; and the state after
  the two stores of \<open>spi_prepare\<close>.
\<close>

definition timer_log :: "timer \<Rightarrow> nat \<Rightarrow> nat \<Rightarrow> hw_op list" where
  "timer_log T a b = map (\<lambda>n. TimerRead (timer_ticks T n)) [a..<b]"

definition polled :: "timer \<Rightarrow> mcu \<Rightarrow> nat \<Rightarrow> mcu" where
  "polled T st k =
     st\<lparr>timer_reads := timer_reads st + k,
        oplog := oplog st @ timer_log T (timer_reads st) (timer_reads st + k)\<rparr>"

definition cfg1_value :: "spi_defs \<Rightarrow> spi_config \<Rightarrow> 32 word" where
  "cfg1_value D config =
     push_bit (SPI_CFG1_MBR_Pos D) (config_div config) OR push_bit (SPI_CFG1_DSIZE_Pos D) 7"

definition stored :: "spi_defs \<Rightarrow> spi_config \<Rightarrow> mcu \<Rightarrow> mcu" where
  "stored D config st =
     reg_write (config_spi config) CFG2 (cfg2_value D config)
       (reg_write (config_spi config) CFG1 (cfg1_value D config) st)"

definition no_settle_delay :: "mcu \<Rightarrow> mcu \<Rightarrow> bool" where
  "no_settle_delay st st' \<longleftrightarrow> timer_reads st' = Suc (timer_reads st)"

definition one_settle_delay :: "timer \<Rightarrow> mcu \<Rightarrow> mcu \<Rightarrow> bool" where
  "one_settle_delay T st st' \<longleftrightarrow>
     (\<exists>n. timer_reads st' = Suc (Suc (timer_reads st + n)) \<and>
          \<not> timer_is_before T (timer_ticks T (Suc (timer_reads st + n))) (settle_deadline T st) \<and>
          (\<forall>k<n. timer_is_before T (timer_ticks T (Suc (timer_reads st + k)))
                   (settle_deadline T st)))"

text \<open>
  The bits of the mode/control value that come from the mode, and the bits that the
  documented layout derives from it: the clock-phase bit from bit 0 of the mode, the
  clock-polarity bit from bit 1, and no other.
\<close>

definition mode_field :: "spi_defs \<Rightarrow> spi_config \<Rightarrow> 32 word" where
  "mode_field D config = push_bit (SPI_CFG2_CPHA_Pos D) (ucast (config_mode config))"

definition documented_mode_field :: "spi_defs \<Rightarrow> spi_config \<Rightarrow> 32 word" where
  "documented_mode_field D config =
     (if bit (config_mode config) 0 then push_bit (SPI_CFG2_CPHA_Pos D) 1 else 0) OR
     (if bit (config_mode config) 1 then SPI_CFG2_CPOL_Msk D else 0)"

text \<open>
  The control bits that \<open>spi_prepare\<close> sets whatever the mode (master, internal
  slave-select management, alternate-function control, slave-select output), and the
  value of the mode/control register under the documented layout.
\<close>

definition fixed_control_bits :: "spi_defs \<Rightarrow> 32 word" where
  "fixed_control_bits D =
     SPI_CFG2_MASTER D OR SPI_CFG2_SSM D OR SPI_CFG2_AFCNTR D OR SPI_CFG2_SSOE D"

definition documented_cfg2 :: "spi_defs \<Rightarrow> spi_config \<Rightarrow> 32 word" where
  "documented_cfg2 D config = documented_mode_field D config OR fixed_control_bits D"

text \<open>
  The name of a pin as the advertised strings write it (the letter P, the port, the
  number in decimal), the name of a peripheral as the bus names write it, and the three
  pins of a row in the two orders that matter: clock, data-out, data-in, and data-in,
  data-out, clock.
\<close>

fun dec :: "nat \<Rightarrow> string" where
  "dec n = (if n < 10 then [''0123456789'' ! n] else dec (n div 10) @ [''0123456789'' ! (n mod 10)])"

declare dec.simps [simp del]

fun pin_name :: "gpio \<Rightarrow> string" where
  "pin_name (GPIO port n) = CHR ''P'' # port # dec n"

fun periph_name :: "SPI_TypeDef \<Rightarrow> string" where
  "periph_name SPI1 = ''spi1''"
| "periph_name SPI2 = ''spi2''"
| "periph_name SPI3 = ''spi3''"
| "periph_name SPI4 = ''spi4''"
| "periph_name SPI5 = ''spi5''"
| "periph_name SPI6 = ''spi6''"

definition pins_sck_mosi_miso :: "spi_info \<Rightarrow> string" where
  "pins_sck_mosi_miso r =
     pin_name (sck_pin r) @ '','' @ pin_name (mosi_pin r) @ '','' @ pin_name (miso_pin r)"

definition pins_miso_mosi_sck :: "spi_info \<Rightarrow> string" where
  "pins_miso_mosi_sck r =
     pin_name (miso_pin r) @ '','' @ pin_name (mosi_pin r) @ '','' @ pin_name (sck_pin r)"

text \<open>
  The bus name registered with value \<open>i\<close> corresponds to row \<open>i\<close> of the table: the
  row exists, the name is that of the row's peripheral (followed by at most a letter
  for the wiring), and the string advertised for the name lists the row's pins in the
  given order.
\<close>

definition bus_matches :: "(spi_info \<Rightarrow> string) \<Rightarrow> build \<Rightarrow> string \<times> nat \<Rightarrow> bool" where
  "bus_matches pins b e \<longleftrightarrow>
     snd e < length (spi_bus b) \<and>
     take 4 (fst e) = periph_name (spi (spi_bus b ! snd e)) \<and>
     constant_str b (''BUS_PINS_'' @ fst e) = Some (pins (spi_bus b ! snd e))"

section \<open>The divisor search\<close>

lemma unat_succ_lt7: "(d::32 word) < 7 \<Longrightarrow> unat (d + 1) = Suc (unat d)"
  by (simp add: word_less_nat_alt unat_word_ariths)

lemma div_loop_continue:
  "rate < drop_bit (unat (d + 1)) pclk \<and> d < 7 \<Longrightarrow> div_loop pclk rate d = div_loop pclk rate (d + 1)"
  by (subst div_loop.simps, rule if_P)

lemma div_loop_exit:
  "\<not> (rate < drop_bit (unat (d + 1)) pclk \<and> d < 7) \<Longrightarrow> div_loop pclk rate d = d"
  by (subst div_loop.simps, rule if_not_P)

lemma div_loop_range:
  "unat d \<le> 7 \<Longrightarrow> unat d \<le> unat (div_loop pclk rate d) \<and> unat (div_loop pclk rate d) \<le> 7"
proof (induction pclk rate d rule: div_loop.induct)
  case (1 pclk rate d)
  show ?case
  proof (cases "rate < drop_bit (unat (d + 1)) pclk \<and> d < 7")
    case True
    then have s: "unat (d + 1) = Suc (unat d)" and l: "unat d < 7"
      by (simp_all add: unat_succ_lt7 word_less_nat_alt)
    from True have e: "div_loop pclk rate d = div_loop pclk rate (d + 1)"
      by (rule div_loop_continue)
    from "1.IH" [OF True] s l show ?thesis
      unfolding e by simp
  next
    case False
    then have "div_loop pclk rate d = d"
      by (rule div_loop_exit)
    with "1.prems" show ?thesis by simp
  qed
qed

lemma div_loop_skipped:
  "unat d \<le> k \<Longrightarrow> k < unat (div_loop pclk rate d) \<Longrightarrow> rate < drop_bit (Suc k) pclk"
proof (induction pclk rate d rule: div_loop.induct)
  case (1 pclk rate d)
  show ?case
  proof (cases "rate < drop_bit (unat (d + 1)) pclk \<and> d < 7")
    case True
    then have s: "unat (d + 1) = Suc (unat d)"
      by (simp add: unat_succ_lt7)
    from True have e: "div_loop pclk rate d = div_loop pclk rate (d + 1)"
      by (rule div_loop_continue)
    show ?thesis
    proof (cases "k = unat d")
      case True
      with \<open>rate < drop_bit (unat (d + 1)) pclk \<and> d < 7\<close> s show ?thesis by simp
    next
      case False
      with "1.prems" s have "unat (d + 1) \<le> k" by simp
      moreover from "1.prems" e have "k < unat (div_loop pclk rate (d + 1))" by simp
      ultimately show ?thesis using "1.IH" [OF True] by simp
    qed
  next
    case False
    then have "div_loop pclk rate d = d"
      by (rule div_loop_exit)
    with "1.prems" show ?thesis by simp
  qed
qed

lemma div_loop_stop:
  "unat (div_loop pclk rate d) < 7 \<Longrightarrow> drop_bit (Suc (unat (div_loop pclk rate d))) pclk \<le> rate"
proof (induction pclk rate d rule: div_loop.induct)
  case (1 pclk rate d)
  show ?case
  proof (cases "rate < drop_bit (unat (d + 1)) pclk \<and> d < 7")
    case True
    from True have e: "div_loop pclk rate d = div_loop pclk rate (d + 1)"
      by (rule div_loop_continue)
    from "1.IH" [OF True] "1.prems" show ?thesis
      unfolding e by simp
  next
    case False
    then have e: "div_loop pclk rate d = d"
      by (rule div_loop_exit)
    with "1.prems" have l: "d < 7" by (simp add: word_less_nat_alt)
    then have "unat (d + 1) = Suc (unat d)" by (simp add: unat_succ_lt7)
    with False l show ?thesis unfolding e by (simp add: not_less)
  qed
qed

lemma div_loop_smallest: "smallest_divisor pclk rate (unat (div_loop pclk rate 0))"
proof -
  define d where "d = unat (div_loop pclk rate 0)"
  have range: "d \<le> 7"
    using div_loop_range [of 0 pclk rate] by (simp add: d_def)
  have skipped: "\<not> drop_bit (k + 1) pclk \<le> rate" if "k < d" for k
    using div_loop_skipped [of 0 k pclk rate] that by (simp add: d_def not_le)
  have stop: "drop_bit (d + 1) pclk \<le> rate" if "d < 7"
    using div_loop_stop [of pclk rate 0] that by (simp add: d_def)
  have least: "drop_bit (d + 1) pclk \<le> rate" if "k \<le> 7" "drop_bit (k + 1) pclk \<le> rate" for k
  proof (cases "d < 7")
    case True
    then show ?thesis by (rule stop)
  next
    case False
    with range have "d = 7" by simp
    moreover from that(2) skipped [of k] have "d \<le> k" by (cases "k < d") simp_all
    ultimately show ?thesis using that by simp
  qed
  have clamp: "d = 7" if "\<forall>k\<le>7. \<not> drop_bit (k + 1) pclk \<le> rate"
  proof (rule ccontr)
    assume "d \<noteq> 7"
    with range have "d < 7" by simp
    with stop that show False by auto
  qed
  show ?thesis
    unfolding smallest_divisor_def d_def [symmetric]
    using range skipped least clamp by blast
qed

lemma div_loop_100MHz_1MHz: "div_loop 100000000 1000000 0 = 6"
  by (simp add: div_loop.simps drop_bit_eq_div)

section \<open>spi\_setup\<close>

lemma activation_frequency:
  "pclock_frequency (gpio_peripheral a f u st) = pclock_frequency st"
  "pclock_frequency (enable_pclock p st) = pclock_frequency st"
  by (simp_all add: gpio_peripheral_def enable_pclock_def)

lemma spi_setup_valid:
  assumes "unat bus < length (spi_bus b)"
  shows "fst (spi_setup b bus mode rate st) =
           Inr \<lparr>config_spi = spi (spi_bus b ! unat bus),
                config_div = div_loop (pclock_frequency st (spi (spi_bus b ! unat bus))) rate 0,
                config_mode = mode\<rparr>"
  using assms
  by (simp add: spi_setup_def Let_def get_pclock_frequency_def activation_frequency)

lemma length_spi_bus_full: "length (spi_bus full_build) = 10"
  by (simp add: spi_bus_def full_build_def ifdef_def)

text \<open>
  Claim C1. For every valid bus index, every mode and every requested rate (0 included),
  \<open>spi_setup\<close> returns a configuration whose divisor \<open>d\<close> is the smallest integer of
  [0,7] with \<open>pclk >> (d+1) <= rate\<close>, and 7 where no integer of [0,7] satisfies the
  inequality; \<open>pclk\<close> is the frequency of the input clock of the bus's peripheral. With
  \<open>pclk = 100000000\<close> and \<open>rate = 1000000\<close> the divisor is 6.
\<close>

theorem spi_setup_divisor:
  assumes "unat bus < length (spi_bus b)"
  shows "\<exists>c st'. spi_setup b bus mode rate st = (Inr c, st') \<and>
           config_spi c = spi (spi_bus b ! unat bus) \<and> config_mode c = mode \<and>
           smallest_divisor (pclock_frequency st (config_spi c)) rate (unat (config_div c)) \<and>
           (pclock_frequency st (config_spi c) = 100000000 \<and> rate = 1000000
              \<longrightarrow> config_div c = 6)"
proof -
  let ?p = "spi (spi_bus b ! unat bus)"
  let ?c = "\<lparr>config_spi = ?p, config_div = div_loop (pclock_frequency st ?p) rate 0,
             config_mode = mode\<rparr>"
  have "spi_setup b bus mode rate st = (Inr ?c, snd (spi_setup b bus mode rate st))"
    using spi_setup_valid [OF assms, of mode rate st] by (simp add: prod_eq_iff)
  moreover have "smallest_divisor (pclock_frequency st (config_spi ?c)) rate (unat (config_div ?c))"
    by (simp add: div_loop_smallest)
  moreover have "pclock_frequency st (config_spi ?c) = 100000000 \<and> rate = 1000000
      \<longrightarrow> config_div ?c = 6"
    by (simp add: div_loop_100MHz_1MHz)
  ultimately show ?thesis
    by (intro exI [of _ ?c] exI [of _ "snd (spi_setup b bus mode rate st)"] conjI) simp_all
qed

theorem spi_setup_divisor_witness:
  "unat (0 :: 32 word) < length (spi_bus full_build) \<and>
   (\<exists>c st'. spi_setup full_build 0 0 1000000 reset_mcu = (Inr c, st') \<and> config_div c = 6)"
proof -
  have h: "unat (0 :: 32 word) < length (spi_bus full_build)"
    by (simp add: length_spi_bus_full)
  have f: "pclock_frequency reset_mcu p = 100000000" for p
    by (simp add: reset_mcu_def)
  from spi_setup_divisor [OF h, of 0 1000000 reset_mcu]
  have "\<exists>c st'. spi_setup full_build 0 0 1000000 reset_mcu = (Inr c, st') \<and> config_div c = 6"
    unfolding f by blast
  with h show ?thesis by simp
qed

text \<open>
  Claim C4. For every bus index greater than or equal to the size of the table,
  \<open>spi_setup\<close> ends in the fatal shutdown with the diagnostic "Invalid spi bus" and
  returns no configuration; the hardware is then as it was at the call: no register
  written, no clock enabled, no pin routed.
\<close>

theorem spi_setup_invalid_bus:
  assumes "length (spi_bus b) \<le> unat bus"
  shows "spi_setup b bus mode rate st = (Inl (Shutdown ''Invalid spi bus''), st)"
  using assms by (simp add: spi_setup_def)

theorem spi_setup_invalid_bus_witness:
  "length (spi_bus full_build) \<le> unat (10 :: 32 word) \<and>
   spi_setup full_build 10 3 1000000 reset_mcu = (Inl (Shutdown ''Invalid spi bus''), reset_mcu)"
proof -
  have h: "length (spi_bus full_build) \<le> unat (10 :: 32 word)"
    by (simp add: length_spi_bus_full)
  from h spi_setup_invalid_bus [OF h, of 3 1000000 reset_mcu] show ?thesis
    by simp
qed

lemma spi_setup_enabled:
  assumes "unat bus < length (spi_bus b)"
    and "spi (spi_bus b ! unat bus) \<in> pclock_enabled st"
  shows "snd (spi_setup b bus mode rate st) = st"
  using assms by (simp add: spi_setup_def Let_def is_enabled_pclock_def)

lemma spi_setup_not_enabled:
  assumes "unat bus < length (spi_bus b)"
    and "spi (spi_bus b ! unat bus) \<notin> pclock_enabled st"
  shows "snd (spi_setup b bus mode rate st) =
           st\<lparr>pclock_enabled := insert (spi (spi_bus b ! unat bus)) (pclock_enabled st),
              oplog := oplog st @
                [EnablePclock (spi (spi_bus b ! unat bus)),
                 GpioPeripheral (miso_pin (spi_bus b ! unat bus)) (func (spi_bus b ! unat bus)) True,
                 GpioPeripheral (mosi_pin (spi_bus b ! unat bus)) (func (spi_bus b ! unat bus)) False,
                 GpioPeripheral (sck_pin (spi_bus b ! unat bus)) (func (spi_bus b ! unat bus)) False]\<rparr>"
  using assms
  by (simp add: spi_setup_def Let_def is_enabled_pclock_def enable_pclock_def gpio_peripheral_def)

lemma spi_setup_enables:
  assumes "unat bus < length (spi_bus b)"
  shows "spi (spi_bus b ! unat bus) \<in> pclock_enabled (snd (spi_setup b bus mode rate st))"
proof (cases "spi (spi_bus b ! unat bus) \<in> pclock_enabled st")
  case True
  with assms show ?thesis by (simp add: spi_setup_enabled)
next
  case False
  with assms show ?thesis by (simp add: spi_setup_not_enabled)
qed

text \<open>
  Claim C5. Take two calls of \<open>spi_setup\<close>, one after the other, whose bus indices
  resolve to the same peripheral instance. The second call leaves the hardware as the
  first left it: no clock enabled, no pin routed. Where the peripheral's clock is not
  enabled before the first call, that call enables the clock and routes the three pins
  of its bus, once each and in this order: clock enable, data-in pin (with pull-up),
  data-out pin, clock pin. Where the clock is enabled already, the first call has no
  side effect either.
\<close>

theorem spi_setup_activates_once:
  assumes "unat bus1 < length (spi_bus b)" and "unat bus2 < length (spi_bus b)"
    and "spi (spi_bus b ! unat bus1) = spi (spi_bus b ! unat bus2)"
  shows "\<exists>c1 st1 c2.
           spi_setup b bus1 mode1 rate1 st = (Inr c1, st1) \<and>
           spi_setup b bus2 mode2 rate2 st1 = (Inr c2, st1) \<and>
           config_spi c1 = config_spi c2 \<and>
           (config_spi c1 \<notin> pclock_enabled st \<longrightarrow>
              oplog st1 = oplog st @
                [EnablePclock (config_spi c1),
                 GpioPeripheral (miso_pin (spi_bus b ! unat bus1)) (func (spi_bus b ! unat bus1)) True,
                 GpioPeripheral (mosi_pin (spi_bus b ! unat bus1)) (func (spi_bus b ! unat bus1)) False,
                 GpioPeripheral (sck_pin (spi_bus b ! unat bus1)) (func (spi_bus b ! unat bus1)) False]) \<and>
           (config_spi c1 \<in> pclock_enabled st \<longrightarrow> st1 = st)"
proof -
  let ?p = "spi (spi_bus b ! unat bus1)"
  let ?st1 = "snd (spi_setup b bus1 mode1 rate1 st)"
  let ?c1 = "\<lparr>config_spi = ?p, config_div = div_loop (pclock_frequency st ?p) rate1 0,
              config_mode = mode1\<rparr>"
  let ?c2 = "\<lparr>config_spi = ?p, config_div = div_loop (pclock_frequency ?st1 ?p) rate2 0,
              config_mode = mode2\<rparr>"
  have first: "spi_setup b bus1 mode1 rate1 st = (Inr ?c1, ?st1)"
    using spi_setup_valid [OF assms(1), of mode1 rate1 st] by (simp add: prod_eq_iff)
  have "?p \<in> pclock_enabled ?st1"
    using assms(1) by (rule spi_setup_enables)
  with assms(3) have "spi (spi_bus b ! unat bus2) \<in> pclock_enabled ?st1"
    by simp
  with assms(2) have "snd (spi_setup b bus2 mode2 rate2 ?st1) = ?st1"
    by (rule spi_setup_enabled)
  with assms(3) have second: "spi_setup b bus2 mode2 rate2 ?st1 = (Inr ?c2, ?st1)"
    using spi_setup_valid [OF assms(2), of mode2 rate2 ?st1] by (simp add: prod_eq_iff)
  have fresh: "?p \<notin> pclock_enabled st \<longrightarrow>
      oplog ?st1 = oplog st @
        [EnablePclock ?p,
         GpioPeripheral (miso_pin (spi_bus b ! unat bus1)) (func (spi_bus b ! unat bus1)) True,
         GpioPeripheral (mosi_pin (spi_bus b ! unat bus1)) (func (spi_bus b ! unat bus1)) False,
         GpioPeripheral (sck_pin (spi_bus b ! unat bus1)) (func (spi_bus b ! unat bus1)) False]"
    using assms(1) by (simp add: spi_setup_not_enabled)
  have active: "?p \<in> pclock_enabled st \<longrightarrow> ?st1 = st"
    using assms(1) by (simp add: spi_setup_enabled)
  from first second fresh active show ?thesis
    by (intro exI [of _ ?c1] exI [of _ ?st1] exI [of _ ?c2] conjI) simp_all
qed

lemma spi_bus_full_rows:
  "spi_bus full_build =
     [row SPI2 (GPIO CHR ''B'' 14) (GPIO CHR ''B'' 15) (GPIO CHR ''B'' 13) (GPIO_FUNCTION 5),
      row SPI1 (GPIO CHR ''A'' 6) (GPIO CHR ''A'' 7) (GPIO CHR ''A'' 5) (GPIO_FUNCTION 5),
      row SPI1 (GPIO CHR ''B'' 4) (GPIO CHR ''B'' 5) (GPIO CHR ''B'' 3) (GPIO_FUNCTION 5),
      row SPI2 (GPIO CHR ''C'' 2) (GPIO CHR ''C'' 3) (GPIO CHR ''B'' 10) (GPIO_FUNCTION 5),
      row SPI3 (GPIO CHR ''C'' 11) (GPIO CHR ''C'' 12) (GPIO CHR ''C'' 10) (GPIO_FUNCTION 6),
      row SPI4 (GPIO CHR ''E'' 13) (GPIO CHR ''E'' 14) (GPIO CHR ''E'' 12) (GPIO_FUNCTION 5),
      row SPI2 (GPIO CHR ''I'' 2) (GPIO CHR ''I'' 3) (GPIO CHR ''I'' 1) (GPIO_FUNCTION 5),
      row SPI5 (GPIO CHR ''F'' 8) (GPIO CHR ''F'' 9) (GPIO CHR ''F'' 7) (GPIO_FUNCTION 5),
      row SPI5 (GPIO CHR ''H'' 7) (GPIO CHR ''F'' 11) (GPIO CHR ''H'' 6) (GPIO_FUNCTION 5),
      row SPI6 (GPIO CHR ''G'' 12) (GPIO CHR ''G'' 14) (GPIO CHR ''G'' 13) (GPIO_FUNCTION 5)]"
  by (simp add: spi_bus_def full_build_def ifdef_def)

theorem spi_setup_activates_once_witness:
  "unat (1 :: 32 word) < length (spi_bus full_build) \<and>
   unat (2 :: 32 word) < length (spi_bus full_build) \<and>
   spi (spi_bus full_build ! unat (1 :: 32 word)) = spi (spi_bus full_build ! unat (2 :: 32 word)) \<and>
   (\<exists>c1 st1 c2.
      spi_setup full_build 1 0 1000000 reset_mcu = (Inr c1, st1) \<and>
      spi_setup full_build 2 3 4000000 st1 = (Inr c2, st1) \<and>
      oplog st1 =
        [EnablePclock SPI1,
         GpioPeripheral (GPIO CHR ''A'' 6) (GPIO_FUNCTION 5) True,
         GpioPeripheral (GPIO CHR ''A'' 7) (GPIO_FUNCTION 5) False,
         GpioPeripheral (GPIO CHR ''A'' 5) (GPIO_FUNCTION 5) False])"
proof -
  have h1: "unat (1 :: 32 word) < length (spi_bus full_build)"
    and h2: "unat (2 :: 32 word) < length (spi_bus full_build)"
    by (simp_all add: length_spi_bus_full)
  have h3: "spi (spi_bus full_build ! unat (1 :: 32 word)) =
      spi (spi_bus full_build ! unat (2 :: 32 word))"
    by (simp add: spi_bus_full_rows row_def)
  from spi_setup_activates_once [OF h1 h2 h3, of 0 1000000 reset_mcu 3 4000000]
  obtain c1 st1 c2 where
    r: "spi_setup full_build 1 0 1000000 reset_mcu = (Inr c1, st1)"
       "spi_setup full_build 2 3 4000000 st1 = (Inr c2, st1)"
    and fresh: "config_spi c1 \<notin> pclock_enabled reset_mcu \<longrightarrow>
        oplog st1 = oplog reset_mcu @
          [EnablePclock (config_spi c1),
           GpioPeripheral (miso_pin (spi_bus full_build ! unat (1 :: 32 word)))
             (func (spi_bus full_build ! unat (1 :: 32 word))) True,
           GpioPeripheral (mosi_pin (spi_bus full_build ! unat (1 :: 32 word)))
             (func (spi_bus full_build ! unat (1 :: 32 word))) False,
           GpioPeripheral (sck_pin (spi_bus full_build ! unat (1 :: 32 word)))
             (func (spi_bus full_build ! unat (1 :: 32 word))) False]"
    by blast
  from r(1) spi_setup_valid [OF h1, of 0 1000000 reset_mcu]
  have "config_spi c1 = SPI1"
    by (simp add: spi_bus_full_rows row_def)
  with fresh have "oplog st1 =
      [EnablePclock SPI1,
       GpioPeripheral (GPIO CHR ''A'' 6) (GPIO_FUNCTION 5) True,
       GpioPeripheral (GPIO CHR ''A'' 7) (GPIO_FUNCTION 5) False,
       GpioPeripheral (GPIO CHR ''A'' 5) (GPIO_FUNCTION 5) False]"
    by (simp add: reset_mcu_def spi_bus_full_rows row_def)
  with r h1 h2 h3 show ?thesis by blast
qed

section \<open>The polling loop\<close>

lemma xfer_iter_front:
  "data s < unat len \<Longrightarrow>
   xfer_iter D P rd len (Suc n) s = xfer_iter D P rd len n (xfer_step D P rd len s)"
  by (induction n) (simp_all add: Let_def)



lemma xfer_loop_Some_iter:
  assumes "xfer_loop D P rd len s = Some s'"
  shows "\<exists>n. s' = xfer_iter D P rd len n s \<and> \<not> data s' < unat len"
proof (rule xfer_loop.raw_induct
    [where P = "\<lambda>D P rd len s s'. \<exists>n. s' = xfer_iter D P rd len n s \<and> \<not> data s' < unat len",
      OF _ assms], goal_cases)
  case (1 f D P rd len s s')
  show ?case
  proof (cases "data s < unat len")
    case True
    with 1(2) have "f D P rd len (xfer_step D P rd len s) = Some s'"
      by simp
    from 1(1) [OF this] obtain n
      where "s' = xfer_iter D P rd len n (xfer_step D P rd len s)" "\<not> data s' < unat len"
      by blast
    with True have "s' = xfer_iter D P rd len (Suc n) s \<and> \<not> data s' < unat len"
      by (simp add: xfer_iter_front del: xfer_iter.simps)
    then show ?thesis ..
  next
    case False
    with 1(2) have "s' = xfer_iter D P rd len 0 s \<and> \<not> data s' < unat len"
      by simp
    then show ?thesis ..
  qed
qed


lemma xfer_iter_invariant:
  assumes "I s" and "\<And>t. I t \<Longrightarrow> data t < unat len \<Longrightarrow> I (xfer_step D P rd len t)"
  shows "I (xfer_iter D P rd len n s)"
  using assms by (induction n) (simp_all add: Let_def)

lemma xfer_loop_invariant:
  assumes "xfer_loop D P rd len s = Some s'" and "I s"
    and "\<And>t. I t \<Longrightarrow> data t < unat len \<Longrightarrow> I (xfer_step D P rd len t)"
  shows "I s' \<and> \<not> data s' < unat len"
proof -
  from assms(1) obtain n where "s' = xfer_iter D P rd len n s" "\<not> data s' < unat len"
    using xfer_loop_Some_iter by blast
  with xfer_iter_invariant [of I s len D P rd n, OF assms(2,3)] show ?thesis
    by simp
qed

lemma spi_transfer_Some:
  assumes "spi_transfer D hw config rd len mem p = Some (mem', p')"
  obtains s where "xfer_loop D (hw (config_spi config)) rd len
      (xfer_start D (hw (config_spi config)) len mem p) = Some s" and "mem' = buf s"
  using assms by (auto simp: spi_transfer_def Let_def split: option.splits)

lemma xfer_step_no_receive: "buf (xfer_step D P 0 len s) = buf s"
  by (simp add: xfer_step_def Let_def)

lemma buf_xfer_start: "buf (xfer_start D P len mem p) = mem"
  by (simp add: xfer_start_def)

text \<open>
  Claim C9. For every configuration, length, buffer and peripheral (so for every
  sequence of status readings and of received bytes), \<open>spi_transfer\<close> called with
  \<open>receive_data\<close> false never stores to the caller's memory: the buffer is unchanged at
  the start of every polling iteration, and unchanged when the call returns.
\<close>

theorem spi_transfer_no_receive:
  "buf (xfer_iter D (hw (config_spi config)) 0 len n
          (xfer_start D (hw (config_spi config)) len mem p)) = mem \<and>
   (\<forall>mem' p'. spi_transfer D hw config 0 len mem p = Some (mem', p') \<longrightarrow> mem' = mem)"
proof
  let ?P = "hw (config_spi config)"
  show iter: "buf (xfer_iter D ?P 0 len n (xfer_start D ?P len mem p)) = mem" for n
    using xfer_iter_invariant [of "\<lambda>s. buf s = mem" "xfer_start D ?P len mem p" len D ?P 0 n]
    by (simp add: xfer_step_no_receive buf_xfer_start)
  show "\<forall>mem' p'. spi_transfer D hw config 0 len mem p = Some (mem', p') \<longrightarrow> mem' = mem"
  proof (intro allI impI)
    fix mem' p'
    assume "spi_transfer D hw config 0 len mem p = Some (mem', p')"
    then obtain s where "xfer_loop D ?P 0 len (xfer_start D ?P len mem p) = Some s"
      and m: "mem' = buf s"
      by (rule spi_transfer_Some)
    then obtain k where "s = xfer_iter D ?P 0 len k (xfer_start D ?P len mem p)"
      using xfer_loop_Some_iter by blast
    with m iter [of k] show "mem' = mem" by simp
  qed
qed

theorem spi_transfer_no_receive_witness:
  "spi_transfer stm32h7xx (\<lambda>p. alternating_device) example_config 0 3 example_mem script_start =
     Some (example_mem, \<lparr>polls = 7, taken = 3, sent = [0x11, 0x22, 0x33]\<rparr>)"
proof -
  have "map_option snd
      (spi_transfer stm32h7xx (\<lambda>p. alternating_device) example_config 0 3 example_mem script_start) =
      Some \<lparr>polls = 7, taken = 3, sent = [0x11, 0x22, 0x33]\<rparr>"
    by (simp add: spi_transfer_def xfer_start_def xfer_loop.simps eot_wait.simps xfer_step_def
        alternating_device_def scripted_device_def script_start_def stm32h7xx_def MAX_FIFO_def
        example_mem_def Let_def)
  then obtain mem' where r:
    "spi_transfer stm32h7xx (\<lambda>p. alternating_device) example_config 0 3 example_mem script_start =
       Some (mem', \<lparr>polls = 7, taken = 3, sent = [0x11, 0x22, 0x33]\<rparr>)"
    by auto
  with spi_transfer_no_receive
    [of stm32h7xx "\<lambda>p. alternating_device" example_config 3 0 example_mem script_start]
  have "mem' = example_mem"
    by blast
  with r show ?thesis by simp
qed

lemma and_or_absorb: "(x AND (t OR r)) AND r = x AND (r :: 32 word)"
  by (rule bit_eqI) (auto simp: bit_simps)

lemma xfer_step_upper:
  "wptr s \<le> data s + 8 \<Longrightarrow> wptr (xfer_step D P rd len s) \<le> data (xfer_step D P rd len s) + 8"
  by (simp add: xfer_step_def Let_def MAX_FIFO_def)

lemma xfer_step_lower:
  assumes "data s \<le> wptr s" and "rx_available D P s \<longrightarrow> data s < wptr s"
  shows "data (xfer_step D P rd len s) \<le> wptr (xfer_step D P rd len s)"
  using assms by (auto simp: xfer_step_def Let_def rx_available_def and_or_absorb)

lemma xfer_start_cursors: "data (xfer_start D P len mem p) = 0" "wptr (xfer_start D P len mem p) = 0"
  by (simp_all add: xfer_start_def)

lemma xfer_iter_upper:
  "wptr (xfer_iter D P rd len n (xfer_start D P len mem p))
     \<le> data (xfer_iter D P rd len n (xfer_start D P len mem p)) + 8"
  using xfer_iter_invariant [of "\<lambda>s. wptr s \<le> data s + 8" "xfer_start D P len mem p" len D P rd n]
  by (simp add: xfer_step_upper xfer_start_cursors)

lemma xfer_iter_lower:
  assumes "\<forall>m<n. data (xfer_iter D P rd len m s) < unat len \<and> rx_available D P (xfer_iter D P rd len m s)
             \<longrightarrow> data (xfer_iter D P rd len m s) < wptr (xfer_iter D P rd len m s)"
    and "data s \<le> wptr s"
  shows "data (xfer_iter D P rd len n s) \<le> wptr (xfer_iter D P rd len n s)"
  using assms
proof (induction n)
  case 0
  then show ?case by simp
next
  case (Suc n)
  let ?t = "xfer_iter D P rd len n s"
  from Suc have le: "data ?t \<le> wptr ?t"
    by simp
  show ?case
  proof (cases "data ?t < unat len")
    case True
    with Suc.prems(1) have "rx_available D P ?t \<longrightarrow> data ?t < wptr ?t"
      by (simp del: xfer_iter.simps)
    with le have "data (xfer_step D P rd len ?t) \<le> wptr (xfer_step D P rd len ?t)"
      by (rule xfer_step_lower)
    with True show ?thesis by (simp add: Let_def)
  next
    case False
    with le show ?thesis by (simp add: Let_def)
  qed
qed

text \<open>
  Claim C2, as stated: at the start of every polling iteration, for every length and
  every sequence of status readings, receive cursor <= send cursor <= receive cursor
  + 8. It fails for a peripheral that reports a received byte before any byte is
  written: after the first iteration the receive cursor is 1 and the send cursor 0.
\<close>

theorem cursor_order_counterexample:
  "\<not> (data (xfer_iter stm32h7xx rx_only_device 0 1 (Suc 0)
              (xfer_start stm32h7xx rx_only_device 1 example_mem script_start))
        \<le> wptr (xfer_iter stm32h7xx rx_only_device 0 1 (Suc 0)
              (xfer_start stm32h7xx rx_only_device 1 example_mem script_start)) \<and>
      wptr (xfer_iter stm32h7xx rx_only_device 0 1 (Suc 0)
              (xfer_start stm32h7xx rx_only_device 1 example_mem script_start))
        \<le> data (xfer_iter stm32h7xx rx_only_device 0 1 (Suc 0)
              (xfer_start stm32h7xx rx_only_device 1 example_mem script_start)) + 8)"
  by (simp add: xfer_start_def xfer_step_def rx_only_device_def scripted_device_def
      script_start_def stm32h7xx_def MAX_FIFO_def Let_def)

text \<open>
  Claim C2, amended. At the start of every polling iteration, for every length and
  every sequence of status readings, send cursor <= receive cursor + 8. And
  receive cursor <= send cursor at the start of iteration \<open>n\<close>, provided that in every
  earlier iteration whose status reading showed the receive-byte-available flag the
  send cursor was ahead of the receive cursor (the peripheral reports a received byte
  only while a byte written to it has not been read back).
\<close>

theorem cursor_bounds:
  "wptr (xfer_iter D P rd len n (xfer_start D P len mem p))
     \<le> data (xfer_iter D P rd len n (xfer_start D P len mem p)) + 8 \<and>
   ((\<forall>m<n. data (xfer_iter D P rd len m (xfer_start D P len mem p)) < unat len \<and>
            rx_available D P (xfer_iter D P rd len m (xfer_start D P len mem p))
            \<longrightarrow> data (xfer_iter D P rd len m (xfer_start D P len mem p))
                  < wptr (xfer_iter D P rd len m (xfer_start D P len mem p)))
    \<longrightarrow> data (xfer_iter D P rd len n (xfer_start D P len mem p))
          \<le> wptr (xfer_iter D P rd len n (xfer_start D P len mem p)))"
  using xfer_iter_upper [of D P rd len n mem p]
    xfer_iter_lower [of n D P rd len "xfer_start D P len mem p"]
  by (simp add: xfer_start_cursors del: xfer_iter.simps)

lemma alternating_iter:
  "xfer_iter stm32h7xx alternating_device rd 3 (Suc 0)
     (xfer_start stm32h7xx alternating_device 3 example_mem script_start) =
   \<lparr>data = 0, wptr = 1, buf = example_mem, periph = \<lparr>polls = 1, taken = 0, sent = [0x11]\<rparr>\<rparr>"
  by (simp add: xfer_start_def xfer_step_def alternating_device_def scripted_device_def
      script_start_def stm32h7xx_def MAX_FIFO_def example_mem_def Let_def)

theorem cursor_bounds_witness:
  "data (xfer_iter stm32h7xx alternating_device 0 3 2
          (xfer_start stm32h7xx alternating_device 3 example_mem script_start))
     \<le> wptr (xfer_iter stm32h7xx alternating_device 0 3 2
          (xfer_start stm32h7xx alternating_device 3 example_mem script_start)) \<and>
   wptr (xfer_iter stm32h7xx alternating_device 0 3 2
          (xfer_start stm32h7xx alternating_device 3 example_mem script_start))
     \<le> data (xfer_iter stm32h7xx alternating_device 0 3 2
          (xfer_start stm32h7xx alternating_device 3 example_mem script_start)) + 8"
proof -
  let ?it = "\<lambda>m. xfer_iter stm32h7xx alternating_device 0 3 m
               (xfer_start stm32h7xx alternating_device 3 example_mem script_start)"
  have h: "\<forall>m<2. data (?it m) < unat (3 :: 8 word) \<and> rx_available stm32h7xx alternating_device (?it m)
      \<longrightarrow> data (?it m) < wptr (?it m)"
  proof (rule allI, rule impI)
    fix m :: nat
    assume "m < 2"
    then have "m = 0 \<or> m = Suc 0" by auto
    moreover have "data (?it 0) < unat (3 :: 8 word) \<and> rx_available stm32h7xx alternating_device (?it 0)
      \<longrightarrow> data (?it 0) < wptr (?it 0)"
      by (simp add: rx_available_def xfer_start_def alternating_device_def scripted_device_def
          script_start_def stm32h7xx_def)
    moreover have "data (?it (Suc 0)) < unat (3 :: 8 word) \<and>
        rx_available stm32h7xx alternating_device (?it (Suc 0))
      \<longrightarrow> data (?it (Suc 0)) < wptr (?it (Suc 0))"
      by (simp only: alternating_iter) simp
    ultimately show "data (?it m) < unat (3 :: 8 word) \<and>
        rx_available stm32h7xx alternating_device (?it m)
      \<longrightarrow> data (?it m) < wptr (?it m)"
      by blast
  qed
  from cursor_bounds [of stm32h7xx alternating_device 0 3 2 example_mem script_start] h
  show ?thesis by blast
qed

lemma flags_exactly_tx:
  fixes x t r :: "32 word"
  assumes "x AND t = t" and "x AND r = 0"
  shows "x AND (t OR r) = t"
  using assms by (simp add: bit.conj_disj_distrib)

text \<open>
  Claim C3, amended. In every polling iteration whose status reading shows the
  transmit-slot-free flag and does not show the receive-byte-available flag, with the
  send cursor below the length and fewer than 8 bytes ahead of the receive cursor,
  the byte of the buffer at the send cursor is written to the transmit data register
  and the send cursor advances by one; nothing else changes in that iteration.
\<close>

theorem tx_write_when_free:
  assumes "tx_free D P s" and "\<not> rx_available D P s"
    and "wptr s < unat len" and "wptr s < data s + 8"
  shows "xfer_step D P rd len s =
           s\<lparr>periph := dev_write_TXDR P (buf s (wptr s)) (snd (dev_read_SR P (periph s))),
             wptr := Suc (wptr s)\<rparr>"
proof -
  from assms(1,2) have "fst (dev_read_SR P (periph s)) AND (SPI_SR_TXP D OR SPI_SR_RXP D) =
      SPI_SR_TXP D"
    by (simp add: tx_free_def rx_available_def flags_exactly_tx)
  moreover from assms(2) have "(fst (dev_read_SR P (periph s)) AND (SPI_SR_TXP D OR SPI_SR_RXP D))
      AND SPI_SR_RXP D = 0"
    by (simp add: rx_available_def and_or_absorb)
  ultimately show ?thesis
    using assms(3,4) by (simp add: xfer_step_def Let_def MAX_FIFO_def)
qed

theorem tx_write_when_free_witness:
  "tx_free stm32h7xx alternating_device
     (xfer_start stm32h7xx alternating_device 3 example_mem script_start) \<and>
   \<not> rx_available stm32h7xx alternating_device
     (xfer_start stm32h7xx alternating_device 3 example_mem script_start) \<and>
   wptr (xfer_start stm32h7xx alternating_device 3 example_mem script_start) < unat (3 :: 8 word) \<and>
   wptr (xfer_start stm32h7xx alternating_device 3 example_mem script_start)
     < data (xfer_start stm32h7xx alternating_device 3 example_mem script_start) + 8 \<and>
   xfer_step stm32h7xx alternating_device 1 3
     (xfer_start stm32h7xx alternating_device 3 example_mem script_start) =
     \<lparr>data = 0, wptr = 1, buf = example_mem, periph = \<lparr>polls = 1, taken = 0, sent = [0x11]\<rparr>\<rparr>"
proof -
  let ?s = "xfer_start stm32h7xx alternating_device 3 example_mem script_start"
  have h1: "tx_free stm32h7xx alternating_device ?s"
    and h2: "\<not> rx_available stm32h7xx alternating_device ?s"
    by (simp_all add: tx_free_def rx_available_def xfer_start_def alternating_device_def
        scripted_device_def script_start_def stm32h7xx_def)
  have h3: "wptr ?s < unat (3 :: 8 word)" and h4: "wptr ?s < data ?s + 8"
    by (simp_all add: xfer_start_def)
  from tx_write_when_free [OF h1 h2 h3 h4, of 1]
  have "xfer_step stm32h7xx alternating_device 1 3 ?s =
      \<lparr>data = 0, wptr = 1, buf = example_mem, periph = \<lparr>polls = 1, taken = 0, sent = [0x11]\<rparr>\<rparr>"
    by (simp add: xfer_start_def alternating_device_def scripted_device_def script_start_def
        example_mem_def)
  with h1 h2 h3 h4 show ?thesis by blast
qed

lemma xfer_iter_numeral:
  "xfer_iter D P rd len (numeral k) s =
     (let s' = xfer_iter D P rd len (pred_numeral k) s
      in if data s' < unat len then xfer_step D P rd len s' else s')"
  by (simp add: numeral_eq_Suc)

text \<open>
  Claim C3, as stated: in every polling iteration whose status reading shows the
  transmit-slot-free flag, with the send cursor below the length and not more than 8
  bytes ahead of the receive cursor, the byte at the send cursor is written and the
  send cursor advances. It fails where the same reading shows the
  receive-byte-available flag too (the first iteration against a peripheral that
  reports both flags), and where the send cursor is exactly 8 ahead (the ninth
  iteration of a 9-byte transfer against a peripheral that reports only free slots).
\<close>

theorem tx_write_counterexample:
  "\<not> (tx_free stm32h7xx both_flags_device
         (xfer_start stm32h7xx both_flags_device 1 example_mem script_start) \<and>
       wptr (xfer_start stm32h7xx both_flags_device 1 example_mem script_start) < unat (1 :: 8 word) \<and>
       wptr (xfer_start stm32h7xx both_flags_device 1 example_mem script_start)
         \<le> data (xfer_start stm32h7xx both_flags_device 1 example_mem script_start) + 8
       \<longrightarrow> wptr (xfer_step stm32h7xx both_flags_device 0 1
                   (xfer_start stm32h7xx both_flags_device 1 example_mem script_start)) =
             Suc (wptr (xfer_start stm32h7xx both_flags_device 1 example_mem script_start))) \<and>
   \<not> (tx_free stm32h7xx tx_only_device
         (xfer_iter stm32h7xx tx_only_device 0 9 8
           (xfer_start stm32h7xx tx_only_device 9 example_mem script_start)) \<and>
       wptr (xfer_iter stm32h7xx tx_only_device 0 9 8
              (xfer_start stm32h7xx tx_only_device 9 example_mem script_start)) < unat (9 :: 8 word) \<and>
       wptr (xfer_iter stm32h7xx tx_only_device 0 9 8
              (xfer_start stm32h7xx tx_only_device 9 example_mem script_start))
         \<le> data (xfer_iter stm32h7xx tx_only_device 0 9 8
              (xfer_start stm32h7xx tx_only_device 9 example_mem script_start)) + 8
       \<longrightarrow> wptr (xfer_step stm32h7xx tx_only_device 0 9
                   (xfer_iter stm32h7xx tx_only_device 0 9 8
                     (xfer_start stm32h7xx tx_only_device 9 example_mem script_start))) =
             Suc (wptr (xfer_iter stm32h7xx tx_only_device 0 9 8
                     (xfer_start stm32h7xx tx_only_device 9 example_mem script_start))))"
proof -
  have a: "xfer_step stm32h7xx both_flags_device 0 1
      (xfer_start stm32h7xx both_flags_device 1 example_mem script_start) =
      \<lparr>data = 1, wptr = 0, buf = example_mem, periph = \<lparr>polls = 1, taken = 1, sent = []\<rparr>\<rparr>"
    by (simp add: xfer_start_def xfer_step_def both_flags_device_def scripted_device_def
        script_start_def stm32h7xx_def MAX_FIFO_def Let_def)
  have b: "xfer_iter stm32h7xx tx_only_device 0 9 8
      (xfer_start stm32h7xx tx_only_device 9 example_mem script_start) =
      \<lparr>data = 0, wptr = 8, buf = example_mem,
       periph = \<lparr>polls = 8, taken = 0,
                 sent = [0x11, 0x22, 0x33, 0x44, 0x55, 0x66, 0x77, 0x88]\<rparr>\<rparr>"
    by (simp add: xfer_iter_numeral xfer_start_def xfer_step_def tx_only_device_def
        scripted_device_def script_start_def stm32h7xx_def MAX_FIFO_def example_mem_def Let_def)
  have c: "xfer_step stm32h7xx tx_only_device 0 9
      \<lparr>data = 0, wptr = 8, buf = example_mem,
       periph = \<lparr>polls = 8, taken = 0,
                 sent = [0x11, 0x22, 0x33, 0x44, 0x55, 0x66, 0x77, 0x88]\<rparr>\<rparr> =
      \<lparr>data = 0, wptr = 8, buf = example_mem,
       periph = \<lparr>polls = 9, taken = 0,
                 sent = [0x11, 0x22, 0x33, 0x44, 0x55, 0x66, 0x77, 0x88]\<rparr>\<rparr>"
    by (simp add: xfer_step_def tx_only_device_def scripted_device_def stm32h7xx_def
        MAX_FIFO_def Let_def)
  show ?thesis
    unfolding a b c
    by (simp add: tx_free_def xfer_start_def both_flags_device_def tx_only_device_def
        scripted_device_def script_start_def stm32h7xx_def)
qed

section \<open>The loop-back peripheral\<close>











section \<open>spi\_prepare\<close>

lemma xor_and_mask_iff:
  fixes a b m :: "32 word"
  shows "(a XOR b) AND m \<noteq> 0 \<longleftrightarrow> a AND m \<noteq> b AND m"
proof -
  have "(a XOR b) AND m = 0 \<longleftrightarrow> a AND m = b AND m"
    unfolding bit_eq_iff by (simp add: bit_simps) blast
  then show ?thesis by simp
qed

lemma polled_0: "polled T st 0 = st"
  by (simp add: polled_def timer_log_def)

lemma timer_log_append:
  assumes "a \<le> b" and "b \<le> c"
  shows "timer_log T a b @ timer_log T b c = timer_log T a c"
proof -
  from assms(2) obtain d where "c = b + d"
    using le_Suc_ex by blast
  with assms(1) upt_add_eq_append [of a b d] show ?thesis
    by (simp add: timer_log_def)
qed

lemma polled_polled: "polled T (polled T st j) k = polled T st (j + k)"
  using timer_log_append [of "timer_reads st" "timer_reads st + j" "timer_reads st + j + k" T]
  by (simp add: polled_def add.assoc)

lemma timer_read_time_polled:
  "timer_read_time T st = (timer_ticks T (timer_reads st), polled T st 1)"
  by (simp add: timer_read_time_def polled_def timer_log_def)

lemma polled_fields:
  "timer_reads (polled T st k) = timer_reads st + k"
  "regs (polled T st k) = regs st"
  "oplog (polled T st k) = oplog st @ timer_log T (timer_reads st) (timer_reads st + k)"
  by (simp_all add: polled_def)

lemma stored_fields:
  "timer_reads (stored D c st) = timer_reads st"
  "regs (stored D c st) (config_spi c) CFG2 = cfg2_value D c"
  "oplog (stored D c st) =
     oplog st @ [RegWrite (config_spi c) CFG1 (cfg1_value D c),
                 RegWrite (config_spi c) CFG2 (cfg2_value D c)]"
  by (simp_all add: stored_def reg_write_def)

lemma settle_wait_unfold:
  "timer_is_before T (timer_ticks T (timer_reads st)) e \<Longrightarrow>
   settle_wait T e st = settle_wait T e (polled T st 1)"
  "\<not> timer_is_before T (timer_ticks T (timer_reads st)) e \<Longrightarrow>
   settle_wait T e st = Some (polled T st 1)"
  by (subst settle_wait.simps, simp add: timer_read_time_polled)+

lemma settle_wait_Some:
  assumes "settle_wait T e st = Some st'"
  shows "\<exists>n. st' = polled T st (Suc n) \<and>
             \<not> timer_is_before T (timer_ticks T (timer_reads st + n)) e \<and>
             (\<forall>k<n. timer_is_before T (timer_ticks T (timer_reads st + k)) e)"
proof (rule settle_wait.raw_induct
    [where P = "\<lambda>T e st st'. \<exists>n. st' = polled T st (Suc n) \<and>
             \<not> timer_is_before T (timer_ticks T (timer_reads st + n)) e \<and>
             (\<forall>k<n. timer_is_before T (timer_ticks T (timer_reads st + k)) e)",
      OF _ assms], goal_cases)
  case (1 f T e st st')
  show ?case
  proof (cases "timer_is_before T (timer_ticks T (timer_reads st)) e")
    case True
    with 1(2) have "f T e (polled T st 1) = Some st'"
      by (simp add: timer_read_time_polled)
    from 1(1) [OF this] obtain n where
      n: "st' = polled T (polled T st 1) (Suc n)"
        "\<not> timer_is_before T (timer_ticks T (timer_reads (polled T st 1) + n)) e"
        "\<forall>k<n. timer_is_before T (timer_ticks T (timer_reads (polled T st 1) + k)) e"
      by auto
    have "\<forall>k<Suc n. timer_is_before T (timer_ticks T (timer_reads st + k)) e"
    proof (rule allI, rule impI)
      fix k assume "k < Suc n"
      show "timer_is_before T (timer_ticks T (timer_reads st + k)) e"
      proof (cases k)
        case 0
        with True show ?thesis by simp
      next
        case (Suc j)
        with \<open>k < Suc n\<close> n(3) show ?thesis by (simp add: polled_fields)
      qed
    qed
    with n(1,2) have "st' = polled T st (Suc (Suc n)) \<and>
        \<not> timer_is_before T (timer_ticks T (timer_reads st + Suc n)) e \<and>
        (\<forall>k<Suc n. timer_is_before T (timer_ticks T (timer_reads st + k)) e)"
      by (simp add: polled_polled polled_fields)
    then show ?thesis ..
  next
    case False
    with 1(2) have "st' = polled T st (Suc 0) \<and>
        \<not> timer_is_before T (timer_ticks T (timer_reads st + 0)) e \<and>
        (\<forall>k<0. timer_is_before T (timer_ticks T (timer_reads st + k)) e)"
      by (simp add: timer_read_time_polled)
    then show ?thesis ..
  qed
qed

lemma settle_wait_returns:
  assumes "\<not> timer_is_before T (timer_ticks T (timer_reads st + n)) e"
  shows "\<exists>st'. settle_wait T e st = Some st'"
  using assms
proof (induction n arbitrary: st)
  case 0
  then show ?case by (simp add: settle_wait_unfold)
next
  case (Suc n)
  show ?case
  proof (cases "timer_is_before T (timer_ticks T (timer_reads st)) e")
    case True
    from Suc.prems have "\<not> timer_is_before T
        (timer_ticks T (timer_reads (polled T st 1) + n)) e"
      by (simp add: polled_fields)
    from Suc.IH [OF this] True show ?thesis
      by (simp add: settle_wait_unfold)
  next
    case False
    then show ?thesis by (simp add: settle_wait_unfold)
  qed
qed

text \<open>
  The two stores come first, then the reading of the timer for the deadline, then the
  wait where the polarity bit differs.
\<close>

lemma spi_prepare_cases:
  "spi_prepare D T c st =
     (if polarity_differs D c st
      then settle_wait T (settle_deadline T st) (polled T (stored D c st) 1)
      else Some (polled T (stored D c st) 1))"
  by (simp add: spi_prepare_def Let_def polarity_differs_def settle_deadline_def
      xor_and_mask_iff timer_read_time_polled stored_def cfg1_value_def)
    (simp add: reg_write_def)

lemma spi_prepare_Some:
  assumes "spi_prepare D T c st = Some st'"
  shows "\<exists>k. st' = polled T (stored D c st) (Suc k)"
proof (cases "polarity_differs D c st")
  case True
  with assms have "settle_wait T (settle_deadline T st) (polled T (stored D c st) 1) = Some st'"
    by (simp add: spi_prepare_cases)
  from settle_wait_Some [OF this] obtain n
    where "st' = polled T (polled T (stored D c st) 1) (Suc n)"
    by blast
  then have "st' = polled T (stored D c st) (Suc (Suc n))"
    by (simp add: polled_polled)
  then show ?thesis ..
next
  case False
  with assms have "st' = polled T (stored D c st) (Suc 0)"
    by (simp add: spi_prepare_cases)
  then show ?thesis ..
qed

lemma spi_prepare_CFG2:
  assumes "spi_prepare D T c st = Some st'"
  shows "regs st' (config_spi c) CFG2 = cfg2_value D c"
  using spi_prepare_Some [OF assms] by (auto simp: polled_fields stored_fields)

lemma spi_prepare_oplog:
  assumes "spi_prepare D T c st = Some st'"
  shows "oplog st' =
           oplog st @
           [RegWrite (config_spi c) CFG1 (cfg1_value D c),
            RegWrite (config_spi c) CFG2 (cfg2_value D c)] @
           timer_log T (timer_reads st) (timer_reads st')"
  using spi_prepare_Some [OF assms] by (auto simp: polled_fields stored_fields)

lemma spi_prepare_no_delay:
  assumes "\<not> polarity_differs D c st"
  shows "\<exists>st'. spi_prepare D T c st = Some st' \<and> no_settle_delay st st'"
  using assms by (simp add: spi_prepare_cases no_settle_delay_def polled_fields stored_fields)

lemma spi_prepare_delay:
  assumes "polarity_differs D c st" and "spi_prepare D T c st = Some st'"
  shows "one_settle_delay T st st'"
proof -
  let ?st3 = "polled T (stored D c st) 1"
  from assms have "settle_wait T (settle_deadline T st) ?st3 = Some st'"
    by (simp add: spi_prepare_cases)
  from settle_wait_Some [OF this] obtain n where
    "st' = polled T ?st3 (Suc n)"
    "\<not> timer_is_before T (timer_ticks T (timer_reads ?st3 + n)) (settle_deadline T st)"
    "\<forall>k<n. timer_is_before T (timer_ticks T (timer_reads ?st3 + k)) (settle_deadline T st)"
    by blast
  then have "timer_reads st' = Suc (Suc (timer_reads st + n)) \<and>
      \<not> timer_is_before T (timer_ticks T (Suc (timer_reads st + n))) (settle_deadline T st) \<and>
      (\<forall>k<n. timer_is_before T (timer_ticks T (Suc (timer_reads st + k))) (settle_deadline T st))"
    by (simp add: polled_fields stored_fields)
  then show ?thesis
    unfolding one_settle_delay_def ..
qed

lemma spi_prepare_returns:
  assumes "\<not> timer_is_before T (timer_ticks T (Suc (timer_reads st + n))) (settle_deadline T st)"
  shows "\<exists>st'. spi_prepare D T c st = Some st'"
proof (cases "polarity_differs D c st")
  case True
  let ?st3 = "polled T (stored D c st) 1"
  from assms have "\<not> timer_is_before T (timer_ticks T (timer_reads ?st3 + n)) (settle_deadline T st)"
    by (simp add: polled_fields stored_fields)
  then have "\<exists>st'. settle_wait T (settle_deadline T st) ?st3 = Some st'"
    by (rule settle_wait_returns)
  with True show ?thesis by (simp add: spi_prepare_cases)
next
  case False
  then show ?thesis by (simp add: spi_prepare_cases)
qed

lemma spi_prepare_again:
  assumes "spi_prepare D T c st = Some st1"
    and "config_spi c' = config_spi c" and "config_mode c' = config_mode c"
  shows "\<not> polarity_differs D c' st1"
  using spi_prepare_CFG2 [OF assms(1)] assms(2,3)
  by (simp add: polarity_differs_def cfg2_value_def)

lemma delays_exclusive: "\<not> (no_settle_delay st st' \<and> one_settle_delay T st st')"
  by (auto simp: no_settle_delay_def one_settle_delay_def)

text \<open>
  Claim C6. \<open>spi_prepare\<close> compares the value it computes for the mode/control
  register with the contents the register has at the call, and stores the new value.
  When it returns, the log of accesses holds the store to the frame-format register
  and the store of the new value to the mode/control register first, and every reading
  of the timer after them: the reading for the deadline and the polls of the wait come
  after the write. It has then made one settle delay (it polled the timer until the
  first reading not before the deadline, which is the time read after the store plus
  one microsecond) if and only if the clock-polarity bit of the old and of the new
  value differ, and no settle delay if and only if they agree. It returns whenever
  the polarity bit is unchanged or the timer reaches the deadline. A second call for
  the same peripheral with an unchanged mode, made right after the first, returns
  without a settle delay.
\<close>

theorem spi_prepare_settle:
  "(\<forall>st'. spi_prepare D T c st = Some st' \<longrightarrow>
      regs st' (config_spi c) CFG2 = cfg2_value D c \<and>
      oplog st' =
        oplog st @
        [RegWrite (config_spi c) CFG1 (cfg1_value D c),
         RegWrite (config_spi c) CFG2 (cfg2_value D c)] @
        timer_log T (timer_reads st) (timer_reads st') \<and>
      (one_settle_delay T st st' \<longleftrightarrow> polarity_differs D c st) \<and>
      (no_settle_delay st st' \<longleftrightarrow> \<not> polarity_differs D c st)) \<and>
   (\<not> polarity_differs D c st \<or>
    (\<exists>n. \<not> timer_is_before T (timer_ticks T (Suc (timer_reads st + n))) (settle_deadline T st))
      \<longrightarrow> (\<exists>st'. spi_prepare D T c st = Some st')) \<and>
   (\<forall>st1 c'. spi_prepare D T c st = Some st1 \<and>
        config_spi c' = config_spi c \<and> config_mode c' = config_mode c \<longrightarrow>
      (\<exists>st2. spi_prepare D T c' st1 = Some st2 \<and> no_settle_delay st1 st2))"
proof (intro conjI allI impI)
  fix st'
  assume r: "spi_prepare D T c st = Some st'"
  show "regs st' (config_spi c) CFG2 = cfg2_value D c"
    using r by (rule spi_prepare_CFG2)
  show "oplog st' =
      oplog st @
      [RegWrite (config_spi c) CFG1 (cfg1_value D c),
       RegWrite (config_spi c) CFG2 (cfg2_value D c)] @
      timer_log T (timer_reads st) (timer_reads st')"
    using r by (rule spi_prepare_oplog)
  have d: "one_settle_delay T st st'" if "polarity_differs D c st"
    using that r by (rule spi_prepare_delay)
  have n: "no_settle_delay st st'" if "\<not> polarity_differs D c st"
    using spi_prepare_no_delay [OF that, of T] r by simp
  from d n delays_exclusive [of st st' T]
  show "one_settle_delay T st st' \<longleftrightarrow> polarity_differs D c st"
    by blast
  from d n delays_exclusive [of st st' T]
  show "no_settle_delay st st' \<longleftrightarrow> \<not> polarity_differs D c st"
    by blast
next
  assume "\<not> polarity_differs D c st \<or>
    (\<exists>n. \<not> timer_is_before T (timer_ticks T (Suc (timer_reads st + n))) (settle_deadline T st))"
  then show "\<exists>st'. spi_prepare D T c st = Some st'"
  proof
    assume "\<not> polarity_differs D c st"
    then show ?thesis
      using spi_prepare_no_delay [of D c st T] by blast
  next
    assume "\<exists>n. \<not> timer_is_before T (timer_ticks T (Suc (timer_reads st + n))) (settle_deadline T st)"
    then show ?thesis
      using spi_prepare_returns [of T st _ D c] by blast
  qed
next
  fix st1 and c' :: spi_config
  assume "spi_prepare D T c st = Some st1 \<and>
    config_spi c' = config_spi c \<and> config_mode c' = config_mode c"
  then have "\<not> polarity_differs D c' st1"
    using spi_prepare_again by blast
  then show "\<exists>st2. spi_prepare D T c' st1 = Some st2 \<and> no_settle_delay st1 st2"
    by (rule spi_prepare_no_delay)
qed

theorem spi_prepare_settle_witness:
  "polarity_differs stm32h7xx cpol_config reset_mcu \<and>
   \<not> timer_is_before counting_timer
       (timer_ticks counting_timer (Suc (timer_reads reset_mcu + 3)))
       (settle_deadline counting_timer reset_mcu) \<and>
   (\<exists>st1. spi_prepare stm32h7xx counting_timer cpol_config reset_mcu = Some st1 \<and>
      timer_reads st1 = 5 \<and>
      regs st1 SPI2 CFG2 = 0xA6400000 \<and>
      oplog st1 =
        [RegWrite SPI2 CFG1 0x60000007, RegWrite SPI2 CFG2 0xA6400000,
         TimerRead 0, TimerRead 1, TimerRead 2, TimerRead 3, TimerRead 4] \<and>
      \<not> no_settle_delay reset_mcu st1 \<and>
      (\<exists>st2. spi_prepare stm32h7xx counting_timer cpol_config st1 = Some st2 \<and>
         timer_reads st2 = 6 \<and>
         oplog st2 = oplog st1 @
           [RegWrite SPI2 CFG1 0x60000007, RegWrite SPI2 CFG2 0xA6400000, TimerRead 5]))"
proof -
  have h1: "polarity_differs stm32h7xx cpol_config reset_mcu"
    by (simp add: polarity_differs_def cfg2_value_def cpol_config_def reset_mcu_def stm32h7xx_def)
  have h2: "\<not> timer_is_before counting_timer
      (timer_ticks counting_timer (Suc (timer_reads reset_mcu + 3)))
      (settle_deadline counting_timer reset_mcu)"
    by (simp add: settle_deadline_def counting_timer_def reset_mcu_def)
  have v1: "cfg1_value stm32h7xx cpol_config = 0x60000007"
    and v2: "cfg2_value stm32h7xx cpol_config = 0xA6400000"
    and p: "config_spi cpol_config = SPI2"
    by (simp_all add: cfg1_value_def cfg2_value_def cpol_config_def stm32h7xx_def)
  note settle = spi_prepare_settle [of stm32h7xx counting_timer cpol_config reset_mcu]
  from h2 have "\<not> polarity_differs stm32h7xx cpol_config reset_mcu \<or>
      (\<exists>n. \<not> timer_is_before counting_timer
        (timer_ticks counting_timer (Suc (timer_reads reset_mcu + n)))
        (settle_deadline counting_timer reset_mcu))"
    by blast
  with settle [THEN conjunct2, THEN conjunct1] obtain st1 where
    r: "spi_prepare stm32h7xx counting_timer cpol_config reset_mcu = Some st1"
    by blast
  note first = settle [THEN conjunct1, rule_format, OF r]
  from first h1 have d: "one_settle_delay counting_timer reset_mcu st1"
    and nd: "\<not> no_settle_delay reset_mcu st1"
    by simp_all
  from d obtain n where n: "timer_reads st1 = Suc (Suc (timer_reads reset_mcu + n))"
    "\<not> timer_is_before counting_timer (timer_ticks counting_timer (Suc (timer_reads reset_mcu + n)))
       (settle_deadline counting_timer reset_mcu)"
    "\<forall>k<n. timer_is_before counting_timer (timer_ticks counting_timer (Suc (timer_reads reset_mcu + k)))
       (settle_deadline counting_timer reset_mcu)"
    unfolding one_settle_delay_def by blast
  have before: "timer_is_before counting_timer (timer_ticks counting_timer (Suc (timer_reads reset_mcu + k)))
       (settle_deadline counting_timer reset_mcu) \<longleftrightarrow> k < 3" if "k \<le> 3" for k
  proof -
    from that have "k = 0 \<or> k = 1 \<or> k = 2 \<or> k = 3" by auto
    then show ?thesis
      by (auto simp: settle_deadline_def counting_timer_def reset_mcu_def)
  qed
  have "n = 3"
  proof (rule ccontr)
    assume "n \<noteq> 3"
    then consider "n < 3" | "3 < n" by linarith
    then show False
    proof cases
      case 1
      with n(2) before [of n] show False by simp
    next
      case 2
      with n(3) have "timer_is_before counting_timer
          (timer_ticks counting_timer (Suc (timer_reads reset_mcu + 3)))
          (settle_deadline counting_timer reset_mcu)"
        by blast
      with h2 show False by simp
    qed
  qed
  with n(1) have t: "timer_reads st1 = 5"
    by (simp add: reset_mcu_def)
  from first have c2: "regs st1 SPI2 CFG2 = 0xA6400000"
    and l: "oplog st1 = oplog reset_mcu @
        [RegWrite (config_spi cpol_config) CFG1 (cfg1_value stm32h7xx cpol_config),
         RegWrite (config_spi cpol_config) CFG2 (cfg2_value stm32h7xx cpol_config)] @
        timer_log counting_timer (timer_reads reset_mcu) (timer_reads st1)"
    unfolding p v2 by simp_all
  have l1: "oplog st1 =
      [RegWrite SPI2 CFG1 0x60000007, RegWrite SPI2 CFG2 0xA6400000,
       TimerRead 0, TimerRead 1, TimerRead 2, TimerRead 3, TimerRead 4]"
    unfolding l t v1 v2 p
    by (simp add: reset_mcu_def timer_log_def counting_timer_def upt_rec)
  from r have "spi_prepare stm32h7xx counting_timer cpol_config reset_mcu = Some st1 \<and>
      config_spi cpol_config = config_spi cpol_config \<and>
      config_mode cpol_config = config_mode cpol_config"
    by simp
  from settle [THEN conjunct2, THEN conjunct2, rule_format, OF this] obtain st2 where
    r2: "spi_prepare stm32h7xx counting_timer cpol_config st1 = Some st2"
    and nd2: "no_settle_delay st1 st2"
    by blast
  with t have t2: "timer_reads st2 = 6"
    by (simp add: no_settle_delay_def)
  note again = spi_prepare_settle [of stm32h7xx counting_timer cpol_config st1,
      THEN conjunct1, rule_format, OF r2]
  from again have "oplog st2 = oplog st1 @
        [RegWrite (config_spi cpol_config) CFG1 (cfg1_value stm32h7xx cpol_config),
         RegWrite (config_spi cpol_config) CFG2 (cfg2_value stm32h7xx cpol_config)] @
        timer_log counting_timer (timer_reads st1) (timer_reads st2)"
    by simp
  then have l2: "oplog st2 = oplog st1 @
      [RegWrite SPI2 CFG1 0x60000007, RegWrite SPI2 CFG2 0xA6400000, TimerRead 5]"
    unfolding t t2 v1 v2 p
    by (simp add: timer_log_def counting_timer_def upt_rec)
  from r2 t2 l2 have second: "\<exists>st2. spi_prepare stm32h7xx counting_timer cpol_config st1 = Some st2 \<and>
      timer_reads st2 = 6 \<and>
      oplog st2 = oplog st1 @
        [RegWrite SPI2 CFG1 0x60000007, RegWrite SPI2 CFG2 0xA6400000, TimerRead 5]"
    by blast
  from r t c2 l1 nd second have "\<exists>st1. spi_prepare stm32h7xx counting_timer cpol_config reset_mcu = Some st1 \<and>
      timer_reads st1 = 5 \<and>
      regs st1 SPI2 CFG2 = 0xA6400000 \<and>
      oplog st1 =
        [RegWrite SPI2 CFG1 0x60000007, RegWrite SPI2 CFG2 0xA6400000,
         TimerRead 0, TimerRead 1, TimerRead 2, TimerRead 3, TimerRead 4] \<and>
      \<not> no_settle_delay reset_mcu st1 \<and>
      (\<exists>st2. spi_prepare stm32h7xx counting_timer cpol_config st1 = Some st2 \<and>
         timer_reads st2 = 6 \<and>
         oplog st2 = oplog st1 @
           [RegWrite SPI2 CFG1 0x60000007, RegWrite SPI2 CFG2 0xA6400000, TimerRead 5])"
    by - (rule exI [of _ st1], simp)
  with h1 h2 show ?thesis
    by (intro conjI)
qed

lemma nat_high_bit:
  fixes n :: nat
  assumes "4 \<le> n"
  shows "\<exists>k. 2 \<le> k \<and> bit n k"
proof -
  from assms have "drop_bit 2 n \<noteq> 0"
    by (simp add: drop_bit_eq_div)
  then obtain j where "bit (drop_bit 2 n) j"
    by (auto simp: bit_eq_iff)
  then have "bit n (2 + j)"
    by (simp add: bit_drop_bit_eq)
  then show ?thesis by (intro exI [of _ "2 + j"]) simp
qed

lemma mode_high_bit:
  fixes m :: "8 word"
  assumes "4 \<le> m"
  shows "\<exists>k. 2 \<le> k \<and> k < 8 \<and> bit m k"
proof -
  from assms have "4 \<le> unat m"
    by (simp add: word_le_nat_alt)
  then obtain k where k: "2 \<le> k" "bit (unat m) k"
    using nat_high_bit by blast
  then have b: "bit m k"
    by (simp add: bit_unsigned_iff possible_bit_def)
  then have "k < 8"
    using bit_imp_le_length [of m k] by simp
  with k(1) b show ?thesis by blast
qed

lemma mode_low_bits:
  fixes m :: "8 word"
  assumes "m \<le> 3" and "2 \<le> k"
  shows "\<not> bit m k"
proof -
  from assms(1) have "unat m < 2 ^ 2"
    by (simp add: word_le_nat_alt)
  also from assms(2) have "(2 :: nat) ^ 2 \<le> 2 ^ k"
    by (rule power_increasing) simp
  finally have "unat m div 2 ^ k = 0"
    by simp
  then have "\<not> bit (unat m) k"
    by (simp add: bit_iff_odd)
  then show ?thesis
    by (simp add: bit_unsigned_iff possible_bit_def)
qed

lemma bit_mode_field:
  assumes "SPI_CFG2_CPHA_Pos D \<le> 24" and "k < 8"
  shows "bit (mode_field D c) (SPI_CFG2_CPHA_Pos D + k) \<longleftrightarrow> bit (config_mode c) k"
  using assms by (simp add: mode_field_def bit_simps)

lemma bit_mode_field_iff:
  assumes "SPI_CFG2_CPHA_Pos D \<le> 24"
  shows "bit (mode_field D c) n \<longleftrightarrow>
           SPI_CFG2_CPHA_Pos D \<le> n \<and> bit (config_mode c) (n - SPI_CFG2_CPHA_Pos D)"
proof (cases "SPI_CFG2_CPHA_Pos D \<le> n \<and> bit (config_mode c) (n - SPI_CFG2_CPHA_Pos D)")
  case True
  then have "n - SPI_CFG2_CPHA_Pos D < 8"
    using bit_imp_le_length [of "config_mode c" "n - SPI_CFG2_CPHA_Pos D"] by simp
  with True assms show ?thesis
    by (simp add: mode_field_def bit_simps)
next
  case False
  then show ?thesis
    by (auto simp: mode_field_def bit_simps)
qed

lemma bit_documented_mode_field:
  assumes "SPI_CFG2_CPHA_Pos D \<le> 24"
    and "SPI_CFG2_CPOL_Msk D = push_bit (Suc (SPI_CFG2_CPHA_Pos D)) 1"
  shows "bit (documented_mode_field D c) n \<longleftrightarrow>
           (n = SPI_CFG2_CPHA_Pos D \<and> bit (config_mode c) 0) \<or>
           (n = Suc (SPI_CFG2_CPHA_Pos D) \<and> bit (config_mode c) 1)"
  using assms by (auto simp: documented_mode_field_def bit_simps)

lemma mode_field_documented:
  assumes "SPI_CFG2_CPHA_Pos D \<le> 24"
    and "SPI_CFG2_CPOL_Msk D = push_bit (Suc (SPI_CFG2_CPHA_Pos D)) 1"
  shows "mode_field D c = documented_mode_field D c \<longleftrightarrow> config_mode c \<le> 3"
proof
  assume low: "config_mode c \<le> 3"
  show "mode_field D c = documented_mode_field D c"
  proof (rule bit_eqI)
    fix n
    let ?p = "SPI_CFG2_CPHA_Pos D"
    have "?p \<le> n \<and> bit (config_mode c) (n - ?p) \<longleftrightarrow>
        (n = ?p \<and> bit (config_mode c) 0) \<or> (n = Suc ?p \<and> bit (config_mode c) 1)"
    proof (cases "?p \<le> n \<and> n - ?p < 2")
      case True
      then have "n = ?p \<or> n = Suc ?p" by auto
      then show ?thesis by auto
    next
      case False
      then have "n < ?p \<or> 2 \<le> n - ?p" by auto
      then show ?thesis
        using mode_low_bits [OF low, of "n - ?p"] by auto
    qed
    then show "bit (mode_field D c) n \<longleftrightarrow> bit (documented_mode_field D c) n"
      by (simp only: bit_mode_field_iff [OF assms(1)] bit_documented_mode_field [OF assms])
  qed
next
  assume eq: "mode_field D c = documented_mode_field D c"
  show "config_mode c \<le> 3"
  proof (rule ccontr)
    assume "\<not> config_mode c \<le> 3"
    then have "4 \<le> config_mode c"
      by (simp add: word_le_nat_alt not_le) 
    then obtain k where k: "2 \<le> k" "k < 8" "bit (config_mode c) k"
      using mode_high_bit by blast
    then have "bit (mode_field D c) (SPI_CFG2_CPHA_Pos D + k)"
      by (simp add: bit_mode_field [OF assms(1)])
    with eq have "bit (documented_mode_field D c) (SPI_CFG2_CPHA_Pos D + k)"
      by simp
    with k(1) show False
      by (simp add: bit_documented_mode_field [OF assms])
  qed
qed

lemma cfg2_value_mode_field:
  "cfg2_value D c = mode_field D c OR fixed_control_bits D"
  by (simp add: cfg2_value_def mode_field_def fixed_control_bits_def ac_simps)

lemma bit_cfg2_value:
  "bit (cfg2_value D c) n \<longleftrightarrow> bit (mode_field D c) n \<or> bit (fixed_control_bits D) n"
  by (simp add: cfg2_value_mode_field bit_or_iff)

lemma bit_documented_cfg2:
  "bit (documented_cfg2 D c) n \<longleftrightarrow>
     bit (documented_mode_field D c) n \<or> bit (fixed_control_bits D) n"
  by (simp add: documented_cfg2_def bit_or_iff)

lemma cfg2_documented_iff:
  assumes "SPI_CFG2_CPHA_Pos D \<le> 24"
    and "SPI_CFG2_CPOL_Msk D = push_bit (Suc (SPI_CFG2_CPHA_Pos D)) 1"
  shows "cfg2_value D c = documented_cfg2 D c \<longleftrightarrow>
           (\<forall>k<8. 2 \<le> k \<and> bit (config_mode c) k
              \<longrightarrow> bit (fixed_control_bits D) (SPI_CFG2_CPHA_Pos D + k))"
proof
  let ?p = "SPI_CFG2_CPHA_Pos D"
  assume eq: "cfg2_value D c = documented_cfg2 D c"
  show "\<forall>k<8. 2 \<le> k \<and> bit (config_mode c) k \<longrightarrow> bit (fixed_control_bits D) (?p + k)"
  proof (rule allI, rule impI, rule impI)
    fix k :: nat
    assume "k < 8" and k: "2 \<le> k \<and> bit (config_mode c) k"
    then have "bit (mode_field D c) (?p + k)"
      by (simp add: bit_mode_field [OF assms(1)])
    then have "bit (cfg2_value D c) (?p + k)"
      by (simp add: bit_cfg2_value)
    with eq have "bit (documented_cfg2 D c) (?p + k)"
      by simp
    moreover from k have "\<not> bit (documented_mode_field D c) (?p + k)"
      by (simp add: bit_documented_mode_field [OF assms])
    ultimately show "bit (fixed_control_bits D) (?p + k)"
      by (simp add: bit_documented_cfg2)
  qed
next
  let ?p = "SPI_CFG2_CPHA_Pos D"
  assume fixed: "\<forall>k<8. 2 \<le> k \<and> bit (config_mode c) k \<longrightarrow> bit (fixed_control_bits D) (?p + k)"
  show "cfg2_value D c = documented_cfg2 D c"
  proof (rule bit_eqI)
    fix n
    have a: "bit (documented_mode_field D c) n \<Longrightarrow> bit (mode_field D c) n"
      by (auto simp: bit_documented_mode_field [OF assms] bit_mode_field_iff [OF assms(1)])
    have b: "bit (documented_mode_field D c) n \<or> bit (fixed_control_bits D) n"
      if m: "bit (mode_field D c) n"
    proof (cases "n - ?p < 2")
      case True
      with m have "(n = ?p \<and> bit (config_mode c) 0) \<or> (n = Suc ?p \<and> bit (config_mode c) 1)"
        by (cases "n = ?p"; cases "n = Suc ?p")
          (auto simp: bit_mode_field_iff [OF assms(1)])
      then show ?thesis
        by (simp add: bit_documented_mode_field [OF assms])
    next
      case False
      from m have le: "?p \<le> n" and bm: "bit (config_mode c) (n - ?p)"
        by (simp_all add: bit_mode_field_iff [OF assms(1)])
      from bm have "n - ?p < 8"
        using bit_imp_le_length [of "config_mode c" "n - ?p"] by simp
      moreover from False have "2 \<le> n - ?p"
        by simp
      ultimately have "bit (fixed_control_bits D) (?p + (n - ?p))"
        using fixed bm by blast
      with le show ?thesis by simp
    qed
    from a b show "bit (cfg2_value D c) n \<longleftrightarrow> bit (documented_cfg2 D c) n"
      unfolding bit_cfg2_value bit_documented_cfg2 by blast
  qed
qed

lemma spi_prepare_stores:
  assumes "\<not> polarity_differs D c st \<or>
    (\<exists>n. \<not> timer_is_before T (timer_ticks T (Suc (timer_reads st + n))) (settle_deadline T st))"
  shows "\<exists>st'. spi_prepare D T c st = Some st' \<and>
           regs st' (config_spi c) CFG2 = cfg2_value D c \<and>
           RegWrite (config_spi c) CFG2 (cfg2_value D c) \<in> set (oplog st')"
proof -
  from assms obtain st' where r: "spi_prepare D T c st = Some st'"
    using spi_prepare_no_delay [of D c st T] spi_prepare_returns [of T st _ D c] by blast
  then have "regs st' (config_spi c) CFG2 = cfg2_value D c"
    by (rule spi_prepare_CFG2)
  moreover from r have "RegWrite (config_spi c) CFG2 (cfg2_value D c) \<in> set (oplog st')"
    by (simp add: spi_prepare_oplog)
  ultimately show ?thesis using r by blast
qed

text \<open>
  Claim C10, as stated: the documented layout holds exactly for the modes 0..3, and
  any mode of 4 or more sets additional bits of the control register above the
  polarity bit. Read on the value that the register receives, it fails in the layout
  of the STM32H7 for mode 4: bit 2 of the mode is shifted onto bit 26, which is the
  fixed bit SSM, so \<open>spi_prepare\<close> stores for mode 4 the value that the documented
  layout gives, which is the value it stores for mode 0.
\<close>

theorem mode_4_counterexample:
  "4 \<le> config_mode mode4_config \<and>
   config_mode example_config = 0 \<and>
   map_option (\<lambda>s. regs s SPI2 CFG2)
     (spi_prepare stm32h7xx counting_timer mode4_config reset_mcu) = Some 0xA4400000 \<and>
   map_option (\<lambda>s. regs s SPI2 CFG2)
     (spi_prepare stm32h7xx counting_timer example_config reset_mcu) = Some 0xA4400000 \<and>
   documented_cfg2 stm32h7xx mode4_config = 0xA4400000"
  by (simp add: spi_prepare_def timer_read_time_def reg_write_def cfg2_value_def
      documented_cfg2_def documented_mode_field_def fixed_control_bits_def
      mode4_config_def example_config_def reset_mcu_def counting_timer_def stm32h7xx_def Let_def)

text \<open>
  Claim C10, amended. \<open>spi_prepare\<close> does not validate or mask the mode: for each of
  the 256 values of the mode it stores, in the mode/control register, the whole mode
  shifted to the position of the clock-phase bit (bit \<open>k\<close> of the mode is bit
  \<open>CPHA_Pos + k\<close> of the mode-derived part, for every \<open>k < 8\<close>) or-ed with the fixed
  control bits; it does store that value whenever it returns, and it returns whenever
  the polarity bit is unchanged or the timer reaches the deadline. The mode-derived
  part is the documented one (phase from bit 0 of the mode, polarity from bit 1,
  nothing else) exactly when the mode is in 0..3, and the value stored is then the
  documented one. A mode of 4 or more has a bit above bit 1, which is set in the
  register above the polarity bit; the value stored differs from the documented one
  exactly when one of these bits of the mode does not fall on a fixed control bit. The
  layout is one in which the polarity bit is next above the phase bit and the shifted
  mode fits the 32-bit register.
\<close>

theorem spi_prepare_mode_unmasked:
  assumes "SPI_CFG2_CPHA_Pos D \<le> 24"
    and "SPI_CFG2_CPOL_Msk D = push_bit (Suc (SPI_CFG2_CPHA_Pos D)) 1"
  shows "cfg2_value D c = mode_field D c OR fixed_control_bits D \<and>
         (\<forall>k<8. bit (mode_field D c) (SPI_CFG2_CPHA_Pos D + k) \<longleftrightarrow> bit (config_mode c) k) \<and>
         (\<forall>T st. \<not> polarity_differs D c st \<or>
            (\<exists>n. \<not> timer_is_before T (timer_ticks T (Suc (timer_reads st + n)))
                    (settle_deadline T st))
            \<longrightarrow> (\<exists>st'. spi_prepare D T c st = Some st' \<and>
                   regs st' (config_spi c) CFG2 = cfg2_value D c \<and>
                   RegWrite (config_spi c) CFG2 (cfg2_value D c) \<in> set (oplog st'))) \<and>
         (\<forall>T st st'. spi_prepare D T c st = Some st' \<longrightarrow>
            regs st' (config_spi c) CFG2 = cfg2_value D c) \<and>
         (mode_field D c = documented_mode_field D c \<longleftrightarrow> config_mode c \<le> 3) \<and>
         (config_mode c \<le> 3 \<longrightarrow> cfg2_value D c = documented_cfg2 D c) \<and>
         (4 \<le> config_mode c \<longrightarrow>
            (\<exists>k. 2 \<le> k \<and> k < 8 \<and> bit (config_mode c) k \<and>
                 bit (mode_field D c) (SPI_CFG2_CPHA_Pos D + k) \<and>
                 bit (cfg2_value D c) (SPI_CFG2_CPHA_Pos D + k))) \<and>
         (cfg2_value D c = documented_cfg2 D c \<longleftrightarrow>
            (\<forall>k<8. 2 \<le> k \<and> bit (config_mode c) k
               \<longrightarrow> bit (fixed_control_bits D) (SPI_CFG2_CPHA_Pos D + k)))"
proof (intro conjI)
  show "cfg2_value D c = mode_field D c OR fixed_control_bits D"
    by (rule cfg2_value_mode_field)
  show "\<forall>k<8. bit (mode_field D c) (SPI_CFG2_CPHA_Pos D + k) \<longleftrightarrow> bit (config_mode c) k"
    using bit_mode_field [OF assms(1)] by blast
  show "\<forall>T st. \<not> polarity_differs D c st \<or>
      (\<exists>n. \<not> timer_is_before T (timer_ticks T (Suc (timer_reads st + n))) (settle_deadline T st))
      \<longrightarrow> (\<exists>st'. spi_prepare D T c st = Some st' \<and>
             regs st' (config_spi c) CFG2 = cfg2_value D c \<and>
             RegWrite (config_spi c) CFG2 (cfg2_value D c) \<in> set (oplog st'))"
    using spi_prepare_stores by blast
  show "\<forall>T st st'. spi_prepare D T c st = Some st' \<longrightarrow>
      regs st' (config_spi c) CFG2 = cfg2_value D c"
    using spi_prepare_CFG2 by blast
  show "mode_field D c = documented_mode_field D c \<longleftrightarrow> config_mode c \<le> 3"
    using assms by (rule mode_field_documented)
  show doc: "cfg2_value D c = documented_cfg2 D c \<longleftrightarrow>
      (\<forall>k<8. 2 \<le> k \<and> bit (config_mode c) k
         \<longrightarrow> bit (fixed_control_bits D) (SPI_CFG2_CPHA_Pos D + k))"
    using assms by (rule cfg2_documented_iff)
  show "config_mode c \<le> 3 \<longrightarrow> cfg2_value D c = documented_cfg2 D c"
  proof
    assume "config_mode c \<le> 3"
    then have "\<forall>k<8. 2 \<le> k \<and> bit (config_mode c) k
        \<longrightarrow> bit (fixed_control_bits D) (SPI_CFG2_CPHA_Pos D + k)"
      using mode_low_bits by blast
    with doc show "cfg2_value D c = documented_cfg2 D c"
      by simp
  qed
  show "4 \<le> config_mode c \<longrightarrow>
      (\<exists>k. 2 \<le> k \<and> k < 8 \<and> bit (config_mode c) k \<and>
           bit (mode_field D c) (SPI_CFG2_CPHA_Pos D + k) \<and>
           bit (cfg2_value D c) (SPI_CFG2_CPHA_Pos D + k))"
  proof
    assume "4 \<le> config_mode c"
    then obtain k where k: "2 \<le> k" "k < 8" "bit (config_mode c) k"
      using mode_high_bit by blast
    then have "bit (mode_field D c) (SPI_CFG2_CPHA_Pos D + k)"
      by (simp add: bit_mode_field [OF assms(1)])
    with k show "\<exists>k. 2 \<le> k \<and> k < 8 \<and> bit (config_mode c) k \<and>
        bit (mode_field D c) (SPI_CFG2_CPHA_Pos D + k) \<and>
        bit (cfg2_value D c) (SPI_CFG2_CPHA_Pos D + k)"
      using bit_cfg2_value by blast
  qed
qed

theorem spi_prepare_mode_unmasked_witness:
  "SPI_CFG2_CPHA_Pos stm32h7xx \<le> 24 \<and>
   SPI_CFG2_CPOL_Msk stm32h7xx = push_bit (Suc (SPI_CFG2_CPHA_Pos stm32h7xx)) 1 \<and>
   4 \<le> config_mode mode8_config \<and>
   \<not> polarity_differs stm32h7xx mode8_config reset_mcu \<and>
   (\<exists>st'. spi_prepare stm32h7xx counting_timer mode8_config reset_mcu = Some st' \<and>
      regs st' SPI2 CFG2 = 0xAC400000 \<and>
      RegWrite SPI2 CFG2 0xAC400000 \<in> set (oplog st')) \<and>
   documented_cfg2 stm32h7xx mode8_config = 0xA4400000 \<and>
   mode_field stm32h7xx mode8_config \<noteq> documented_mode_field stm32h7xx mode8_config"
proof -
  have h1: "SPI_CFG2_CPHA_Pos stm32h7xx \<le> 24"
    and h2: "SPI_CFG2_CPOL_Msk stm32h7xx = push_bit (Suc (SPI_CFG2_CPHA_Pos stm32h7xx)) 1"
    by (simp_all add: stm32h7xx_def)
  have h3: "4 \<le> config_mode mode8_config" and n3: "\<not> config_mode mode8_config \<le> 3"
    by (simp_all add: mode8_config_def)
  have v: "cfg2_value stm32h7xx mode8_config = 0xAC400000"
    and p: "config_spi mode8_config = SPI2"
    by (simp_all add: cfg2_value_def mode8_config_def stm32h7xx_def)
  have h4: "\<not> polarity_differs stm32h7xx mode8_config reset_mcu"
    by (simp add: polarity_differs_def v) (simp add: reset_mcu_def stm32h7xx_def p)
  have dv: "documented_cfg2 stm32h7xx mode8_config = 0xA4400000"
    by (simp add: documented_cfg2_def documented_mode_field_def fixed_control_bits_def
        mode8_config_def stm32h7xx_def)
  note unmasked = spi_prepare_mode_unmasked [OF h1 h2, of mode8_config]
  from h4 have "\<not> polarity_differs stm32h7xx mode8_config reset_mcu \<or>
      (\<exists>n. \<not> timer_is_before counting_timer
        (timer_ticks counting_timer (Suc (timer_reads reset_mcu + n)))
        (settle_deadline counting_timer reset_mcu))"
    by simp
  from unmasked [THEN conjunct2, THEN conjunct2, THEN conjunct1, rule_format, OF this]
  have run: "\<exists>st'. spi_prepare stm32h7xx counting_timer mode8_config reset_mcu = Some st' \<and>
      regs st' SPI2 CFG2 = 0xAC400000 \<and> RegWrite SPI2 CFG2 0xAC400000 \<in> set (oplog st')"
    unfolding v p .
  from unmasked [THEN conjunct2, THEN conjunct2, THEN conjunct2, THEN conjunct2, THEN conjunct1] n3
  have "mode_field stm32h7xx mode8_config \<noteq> documented_mode_field stm32h7xx mode8_config"
    by simp
  with h1 h2 h3 h4 run dv show ?thesis
    by (intro conjI)
qed

section \<open>The registered names and the table\<close>

lemma gpioi_build_matches:
  "list_all
     (bus_matches pins_miso_mosi_sck
        \<lparr>CONFIG_MACH_STM32F1 = f1, def_SPI3 = s3, def_SPI4 = s4, def_GPIOI = True,
         def_SPI5 = s5, def_SPI6 = s6\<rparr>)
     (spi_bus_enumeration
        \<lparr>CONFIG_MACH_STM32F1 = f1, def_SPI3 = s3, def_SPI4 = s4, def_GPIOI = True,
         def_SPI5 = s5, def_SPI6 = s6\<rparr>)"
  by (cases f1; cases s3; cases s4; cases s5; cases s6)
    (simp_all add: bus_matches_def pins_miso_mosi_sck_def spi_bus_enumeration_def
      constant_str_def declarations_def spi_bus_def row_def ifdef_def dec.simps)

lemma gpioi_build_values:
  "map snd (spi_bus_enumeration
        \<lparr>CONFIG_MACH_STM32F1 = f1, def_SPI3 = s3, def_SPI4 = s4, def_GPIOI = True,
         def_SPI5 = s5, def_SPI6 = s6\<rparr>) =
   [0..<length (spi_bus
        \<lparr>CONFIG_MACH_STM32F1 = f1, def_SPI3 = s3, def_SPI4 = s4, def_GPIOI = True,
         def_SPI5 = s5, def_SPI6 = s6\<rparr>)]"
  by (cases f1; cases s3; cases s4; cases s5; cases s6)
    (simp_all add: spi_bus_enumeration_def declarations_def spi_bus_def ifdef_def upt_rec)

text \<open>
  Claim C7, as stated: for every build, the bus name registered with value \<open>i\<close>
  corresponds to row \<open>i\<close> of the table, and the advertised string lists the row's
  pins in the order clock, data-out, data-in. The order fails in every build: the
  first row has \<open>miso = PB14\<close>, \<open>mosi = PB15\<close>, \<open>sck = PB13\<close> and the string is
  "PB14,PB15,PB13", which is data-in, data-out, clock. The correspondence fails in a
  build without \<open>GPIOI\<close>: "spi5" is registered with value 6, and row 6 is the row of
  SPI2 on port I, which is compiled in every build.
\<close>

theorem bus_registry_counterexample:
  "\<not> list_all (bus_matches pins_sck_mosi_miso full_build) (spi_bus_enumeration full_build) \<and>
   constant_str full_build ''BUS_PINS_spi2'' = Some ''PB14,PB15,PB13'' \<and>
   pins_sck_mosi_miso (spi_bus full_build ! 0) = ''PB13,PB15,PB14'' \<and>
   (''spi5'', 6) \<in> set (spi_bus_enumeration build_without_GPIOI) \<and>
   spi_bus build_without_GPIOI ! 6 =
     row SPI2 (GPIO CHR ''I'' 2) (GPIO CHR ''I'' 3) (GPIO CHR ''I'' 1) (GPIO_FUNCTION 5) \<and>
   \<not> bus_matches pins_miso_mosi_sck build_without_GPIOI (''spi5'', 6)"
  by (simp add: bus_matches_def pins_sck_mosi_miso_def pins_miso_mosi_sck_def
      spi_bus_enumeration_def constant_str_def declarations_def spi_bus_def row_def ifdef_def
      full_build_def build_without_GPIOI_def dec.simps)

text \<open>
  Claim C7, amended. For every build in which \<open>GPIOI\<close> is defined, the bus names are
  registered with the values 0, 1, 2, ... of the rows of the table, in order; the name
  registered with value \<open>i\<close> corresponds to row \<open>i\<close> (same peripheral and pins), and
  the advertised string of each bus lists that row's three pins in the order data-in
  (miso), data-out (mosi), clock (sck).
\<close>

theorem bus_registry_matches:
  assumes "def_GPIOI b"
  shows "list_all (bus_matches pins_miso_mosi_sck b) (spi_bus_enumeration b) \<and>
         map snd (spi_bus_enumeration b) = [0..<length (spi_bus b)]"
proof (cases b)
  case (fields f1 s3 s4 gi s5 s6)
  with assms have "gi" by simp
  with fields have b: "b = \<lparr>CONFIG_MACH_STM32F1 = f1, def_SPI3 = s3, def_SPI4 = s4,
      def_GPIOI = True, def_SPI5 = s5, def_SPI6 = s6\<rparr>"
    by simp
  show ?thesis
    unfolding b using gpioi_build_matches gpioi_build_values by blast
qed

theorem bus_registry_matches_witness:
  "def_GPIOI full_build \<and>
   list_all (bus_matches pins_miso_mosi_sck full_build) (spi_bus_enumeration full_build) \<and>
   spi_bus_enumeration full_build =
     [(''spi2'', 0), (''spi1'', 1), (''spi1a'', 2), (''spi2a'', 3), (''spi3a'', 4), (''spi4'', 5),
      (''spi2b'', 6), (''spi5'', 7), (''spi5a'', 8), (''spi6'', 9)]"
proof -
  have h: "def_GPIOI full_build"
    by (simp add: full_build_def)
  have e: "spi_bus_enumeration full_build =
     [(''spi2'', 0), (''spi1'', 1), (''spi1a'', 2), (''spi2a'', 3), (''spi3a'', 4), (''spi4'', 5),
      (''spi2b'', 6), (''spi5'', 7), (''spi5a'', 8), (''spi6'', 9)]"
    by (simp add: spi_bus_enumeration_def declarations_def ifdef_def full_build_def)
  from bus_registry_matches [OF h] h e show ?thesis
    by simp
qed

end
